theory Spec2Isabelle
  imports Complex_Main "HOL-Library.Sublist" "HOL-Library.Log_Nat"
begin

section \<open>Conventions\<close>

text \<open>
  The development follows the Go sources of the scouting backend: the Grid client
  (\<^verbatim>\<open>GetTeamStatistics\<close> and its helpers), the confidence scorer, the trend analyser,
  the comparison builder and the report assembler.

  \<^item> Go's \<^verbatim>\<open>int\<close> is modelled by HOL's \<open>int\<close>. The counters of the program are bounded by
    the number of series fetched (at most 50) and by kill totals of a handful of series,
    far from the 64-bit range, so wrap-around is left out.
  \<^item> A finite value of Go's \<^verbatim>\<open>float64\<close> is a real. The function \<open>f64\<close> below rounds a
    real to the nearest binary value with a significand of 53 bits, a tie going to the
    even significand, as IEEE 754 does by default. The arithmetic of the trend analyser
    and of the comparison builder, whose results are compared with thresholds and
    printed, rounds as the program does: each operand is read through \<open>f64\<close>, which
    leaves a value of \<^verbatim>\<open>float64\<close> as it is, and each difference, quotient and product
    is rounded by \<open>f64\<close>; a decimal constant of the source such as \<^verbatim>\<open>0.05\<close> is
    \<open>f64 (5 / 100)\<close>. The range of the exponent is not bounded: the values of the
    program are win rates, ratios of counters and percentages, far from the thresholds
    of overflow and underflow. The quotients of two counters in the aggregation and in
    the sample-size test are stored and compared as exact quotients. Where the program
    divides by a value that may be zero, the quotient is a value of \<open>float64\<close> below,
    which carries the IEEE infinities and NaN, since such a division does not panic in
    Go. The sign of zero is left out.
  \<^item> \<^verbatim>\<open>time.Time\<close> is an instant on a linear scale (an \<open>int\<close>); calendar arithmetic
    (\<^verbatim>\<open>AddDate\<close>) belongs to Go's library and is a parameter of the model.
  \<^item> A Go string is its sequence of bytes. \<^verbatim>\<open>strings.ToLower\<close> maps the letters of
    Unicode; it belongs to Go's library and is a parameter of the model as well.
  \<^item> The string-typed enumerations of \<^verbatim>\<open>models.go\<close> stay strings, as in the source:
    a time window arrives unchecked from the request, and a zero-valued struct carries
    the empty string.
\<close>

type_synonym time = int

definition zeroTime :: time where
  "zeroTime = 0"

section \<open>Strings and formatting\<close>

text \<open>\<^verbatim>\<open>strings.Contains(s, sub)\<close>: \<open>sub\<close> occurs in \<open>s\<close> as a contiguous block.\<close>

fun contains :: "string \<Rightarrow> string \<Rightarrow> bool" where
  "contains [] sub = (sub = [])"
| "contains (c # cs) sub = (prefix sub (c # cs) \<or> contains cs sub)"

definition digitChar :: "nat \<Rightarrow> char" where
  "digitChar d = ''0123456789'' ! d"

function showNat :: "nat \<Rightarrow> string" where
  "showNat n = (if n < 10 then [digitChar n] else showNat (n div 10) @ [digitChar (n mod 10)])"
  by pat_completeness auto
termination
  by (relation "measure id") auto

declare showNat.simps [simp del]

text \<open>The verb \<^verbatim>\<open>%d\<close>.\<close>

definition showInt :: "int \<Rightarrow> string" where
  "showInt i = (if i < 0 then ''-'' @ showNat (nat (- i)) else showNat (nat i))"

text \<open>Rounding to the nearest integer, a tie going to the even neighbour.\<close>

definition roundHalfEven :: "real \<Rightarrow> int" where
  "roundHalfEven x =
     (let f = \<lfloor>x\<rfloor>; d = x - of_int f
      in if d < 1 / 2 then f else if 1 / 2 < d then f + 1 else if even f then f else f + 1)"

text \<open>The verb \<^verbatim>\<open>%.0f\<close> on a finite value: sign, then the rounded magnitude.\<close>

definition fmtF0 :: "real \<Rightarrow> string" where
  "fmtF0 x = (if x < 0 then ''-'' else '''') @ showNat (nat (roundHalfEven \<bar>x\<bar>))"

text \<open>The verb \<^verbatim>\<open>%.1f\<close> on a finite value: one digit after the point.\<close>

definition fmtF1 :: "real \<Rightarrow> string" where
  "fmtF1 x =
     (let n = nat (roundHalfEven (\<bar>x\<bar> * 10))
      in (if x < 0 then ''-'' else '''') @ showNat (n div 10) @ ''.'' @ showNat (n mod 10))"

section \<open>Rounding to float64\<close>

text \<open>The powers of two with an integer exponent.\<close>

definition pow2 :: "int \<Rightarrow> real" where
  "pow2 k = (if 0 \<le> k then 2 ^ nat k else 1 / 2 ^ nat (- k))"

text \<open>The binary exponent of a positive real: \<open>pow2 (expo x) \<le> x < pow2 (expo x + 1)\<close>.\<close>

definition expo :: "real \<Rightarrow> int" where
  "expo x = (if 1 \<le> x then bitlen \<lfloor>x\<rfloor> - 1 else - bitlen (\<lceil>1 / x\<rceil> - 1))"

text \<open>
  The nearest value with a significand of 53 bits: the magnitude is rounded to a multiple
  of the unit in the last place of its binade, a tie going to the even multiple.
\<close>

definition f64 :: "real \<Rightarrow> real" where
  "f64 x =
     (if x = 0 then 0
      else (let ulp = pow2 (expo \<bar>x\<bar> - 52)
            in sgn x * real_of_int (roundHalfEven (\<bar>x\<bar> / ulp)) * ulp))"

text \<open>The significand of a positive value, as an integer.\<close>

definition mant :: "real \<Rightarrow> int" where
  "mant x = roundHalfEven (x / pow2 (expo x - 52))"

section \<open>Values of float64 after a division\<close>

datatype float64 = Finite real | PosInf | NegInf | NaN

text \<open>
  The quotient of two values of \<^verbatim>\<open>float64\<close>, rounded; a zero divisor gives an infinity
  or NaN.
\<close>

definition fdiv :: "real \<Rightarrow> real \<Rightarrow> float64" where
  "fdiv a b =
     (if b \<noteq> 0 then Finite (f64 (a / b))
      else if 0 < a then PosInf
      else if a < 0 then NegInf
      else NaN)"

text \<open>The product with a positive finite constant, rounded.\<close>

fun fscale :: "float64 \<Rightarrow> real \<Rightarrow> float64" where
  "fscale (Finite x) k = Finite (f64 (x * k))"
| "fscale PosInf k = PosInf"
| "fscale NegInf k = NegInf"
| "fscale NaN k = NaN"

text \<open>\<^verbatim>\<open>math.Abs\<close>.\<close>

fun fabs :: "float64 \<Rightarrow> float64" where
  "fabs (Finite x) = Finite \<bar>x\<bar>"
| "fabs PosInf = PosInf"
| "fabs NegInf = PosInf"
| "fabs NaN = NaN"

text \<open>The comparisons \<^verbatim>\<open>x >= k\<close> and \<^verbatim>\<open>x < k\<close> with a finite \<open>k\<close>; both are false on NaN.\<close>

fun fge :: "float64 \<Rightarrow> real \<Rightarrow> bool" where
  "fge (Finite x) k = (k \<le> x)"
| "fge PosInf k = True"
| "fge NegInf k = False"
| "fge NaN k = False"

fun flt :: "float64 \<Rightarrow> real \<Rightarrow> bool" where
  "flt (Finite x) k = (x < k)"
| "flt PosInf k = False"
| "flt NegInf k = True"
| "flt NaN k = False"

text \<open>The verb \<^verbatim>\<open>%.0f\<close> on any value.\<close>

fun fmtFloat0 :: "float64 \<Rightarrow> string" where
  "fmtFloat0 (Finite x) = fmtF0 x"
| "fmtFloat0 PosInf = ''+Inf''"
| "fmtFloat0 NegInf = ''-Inf''"
| "fmtFloat0 NaN = ''NaN''"

fun isFinite :: "float64 \<Rightarrow> bool" where
  "isFinite (Finite x) = True"
| "isFinite PosInf = False"
| "isFinite NegInf = False"
| "isFinite NaN = False"

section \<open>Data model (internal/models/models.go)\<close>

type_synonym TimeWindow = string

definition LastWeek :: TimeWindow where
  "LastWeek = ''LAST_WEEK''"

definition LastMonth :: TimeWindow where
  "LastMonth = ''LAST_MONTH''"

definition Last3Months :: TimeWindow where
  "Last3Months = ''LAST_3_MONTHS''"

definition Last6Months :: TimeWindow where
  "Last6Months = ''LAST_6_MONTHS''"

definition LastYear :: TimeWindow where
  "LastYear = ''LAST_YEAR''"


type_synonym ConfidenceLevel = string

definition ConfidenceHigh :: ConfidenceLevel where
  "ConfidenceHigh = ''HIGH''"

definition ConfidenceMedium :: ConfidenceLevel where
  "ConfidenceMedium = ''MEDIUM''"

definition ConfidenceLow :: ConfidenceLevel where
  "ConfidenceLow = ''LOW''"


record Confidence =
  Level :: ConfidenceLevel
  SampleSize :: int
  Reasoning :: string
  ReliabilityScore :: int

record Streak =
  Type :: string
  Count :: int

record TeamStats =
  WinRate :: real
  KDRatio :: real
  MatchesPlayed :: int
  Kills :: int
  Deaths :: int
  Assists :: int
  KillsAvg :: real
  DeathsAvg :: real
  AssistsAvg :: real
  CurrentStreak :: Streak
  SampleSize :: int
  Confidence :: Confidence
  ActualTimeWindow :: TimeWindow

record SeriesStats =
  SeriesID :: string
  TeamID :: string
  TeamName :: string
  GamesPlayed :: int
  Wins :: int
  Won :: bool
  Kills :: int
  Deaths :: int
  Assists :: int
  RoundsWon :: int
  RoundsLost :: int
  KillsAvg :: real
  DeathsAvg :: real
  KDRatio :: real

text \<open>The zero value of \<^verbatim>\<open>models.Confidence\<close>, which a struct literal leaves in place.\<close>

definition zeroConfidence :: Confidence where
  "zeroConfidence = \<lparr>Level = '''', Confidence.SampleSize = 0, Reasoning = '''', ReliabilityScore = 0\<rparr>"

section \<open>The Grid client (GetTeamStatistics)\<close>

text \<open>
  The two error types of the client, and the untyped errors made by \<^verbatim>\<open>fmt.Errorf\<close>:
  \<open>ErrorString\<close> carries a message only, \<open>WrapError\<close> is \<^verbatim>\<open>fmt.Errorf("...: %w", err)\<close>
  and keeps the cause.
\<close>

datatype error =
    TeamNotFoundError string "string list"
  | InsufficientDataError string string time
  | ErrorString string
  | WrapError string error

text \<open>\<^verbatim>\<open>errors.As\<close> with a target of type \<^verbatim>\<open>*InsufficientDataError\<close>: walk the chain of causes.\<close>

fun asInsufficientDataError :: "error \<Rightarrow> (string \<times> string \<times> time) option" where
  "asInsufficientDataError (InsufficientDataError team reason lastMatch) = Some (team, reason, lastMatch)"
| "asInsufficientDataError (WrapError msg cause) = asInsufficientDataError cause"
| "asInsufficientDataError (TeamNotFoundError team available) = None"
| "asInsufficientDataError (ErrorString msg) = None"

text \<open>\<^verbatim>\<open>errors.As\<close> with a target of type \<^verbatim>\<open>*TeamNotFoundError\<close>.\<close>

fun asTeamNotFoundError :: "error \<Rightarrow> (string \<times> string list) option" where
  "asTeamNotFoundError (TeamNotFoundError team available) = Some (team, available)"
| "asTeamNotFoundError (WrapError msg cause) = asTeamNotFoundError cause"
| "asTeamNotFoundError (InsufficientDataError team reason lastMatch) = None"
| "asTeamNotFoundError (ErrorString msg) = None"

record SeriesData =
  ID :: string
  TeamID :: string
  Date :: time
  Format :: string
  Won :: bool
  Opponent :: string

text \<open>
  What the client reaches outside the program: the clock, Go's calendar arithmetic
  \<^verbatim>\<open>t.AddDate(years, months, days)\<close>, the series history of a team
  (\<^verbatim>\<open>GetTeamSeriesHistory(team, limit, tournamentIDs)\<close>) and the detail statistics of
  a series (\<^verbatim>\<open>GetSeriesStats(seriesID)\<close>). The latter returns a Go map; the list holds
  its entries in the order in which the \<^verbatim>\<open>range\<close> loop visits them. The last field is
  \<^verbatim>\<open>strings.ToLower\<close>.
\<close>

record Client =
  timeNow :: time
  addDate :: "time \<Rightarrow> int \<Rightarrow> int \<Rightarrow> int \<Rightarrow> time"
  GetTeamSeriesHistory :: "string \<Rightarrow> int \<Rightarrow> string list \<Rightarrow> error + SeriesData list"
  GetSeriesStats :: "string \<Rightarrow> error + SeriesStats list"
  toLower :: "string \<Rightarrow> string"

definition getWindowFallbackSequence :: "TimeWindow \<Rightarrow> TimeWindow list" where
  "getWindowFallbackSequence requested =
     (if requested = LastWeek then [LastWeek, LastMonth, Last3Months]
      else if requested = LastMonth then [LastMonth, Last3Months, Last6Months]
      else if requested = Last3Months then [Last3Months, Last6Months, LastYear]
      else if requested = Last6Months then [Last6Months, LastYear]
      else if requested = LastYear then [LastYear]
      else [Last3Months])"

definition calculateCutoffDate :: "Client \<Rightarrow> time \<Rightarrow> TimeWindow \<Rightarrow> time" where
  "calculateCutoffDate c now window =
     (if window = LastWeek then addDate c now 0 0 (- 7)
      else if window = LastMonth then addDate c now 0 (- 1) 0
      else if window = Last3Months then addDate c now 0 (- 3) 0
      else if window = Last6Months then addDate c now 0 (- 6) 0
      else if window = LastYear then addDate c now (- 1) 0 0
      else addDate c now 0 (- 3) 0)"

text \<open>The inner loop of step 2: the series dated strictly after the cutoff, in order.\<close>

definition filterByCutoff :: "time \<Rightarrow> SeriesData list \<Rightarrow> SeriesData list" where
  "filterByCutoff cutoffDate seriesHistory = filter (\<lambda>series. cutoffDate < Date series) seriesHistory"

text \<open>
  The outer loop of step 2 over the fallback sequence. The state is the pair of the
  variables \<^verbatim>\<open>filteredSeries\<close> and \<^verbatim>\<open>actualWindow\<close>; \<^verbatim>\<open>break\<close> returns it at once.
\<close>

fun windowLoop ::
  "Client \<Rightarrow> SeriesData list \<Rightarrow> TimeWindow list \<Rightarrow> SeriesData list \<times> TimeWindow
    \<Rightarrow> SeriesData list \<times> TimeWindow" where
  "windowLoop c seriesHistory [] (filteredSeries, actualWindow) = (filteredSeries, actualWindow)"
| "windowLoop c seriesHistory (window # rest) (filteredSeries, actualWindow) =
     (let filteredSeries' = filterByCutoff (calculateCutoffDate c (timeNow c) window) seriesHistory
      in if 3 \<le> length filteredSeries' then (filteredSeries', window)
         else windowLoop c seriesHistory rest (filteredSeries', actualWindow))"

definition resolveWindow :: "Client \<Rightarrow> TimeWindow \<Rightarrow> SeriesData list \<Rightarrow> SeriesData list \<times> TimeWindow" where
  "resolveWindow c timeWindow seriesHistory =
     windowLoop c seriesHistory (getWindowFallbackSequence timeWindow) ([], timeWindow)"

text \<open>
  Step 1, before the history is fetched: the tournaments of the title when the caller
  names none.
\<close>

definition autoSelectTournaments :: "Client \<Rightarrow> string \<Rightarrow> string list \<Rightarrow> error + string list" where
  "autoSelectTournaments c title tournamentIDs =
     (if tournamentIDs = [] then
        (let t = toLower c title
         in if t = ''valorant'' then
              Inr [''757371'', ''757481'', ''774782'', ''775516'', ''800675'', ''826660'']
            else if t = ''lol'' \<or> t = ''leagueoflegends'' then
              Inr [''758024'', ''774794'', ''825490'', ''826679'', ''758043'', ''774888'',
                   ''758077'', ''774622'', ''825468'', ''826906'',
                   ''758054'', ''774845'', ''775662'', ''825450'']
            else Inl (ErrorString (''no tournaments configured for title: '' @ title)))
      else Inr tournamentIDs)"

text \<open>Step 3: the running totals of the detail loop.\<close>

record DetailTotals =
  totalKills :: int
  totalDeaths :: int
  totalGames :: int
  successfulDownloads :: int

definition noDetails :: DetailTotals where
  "noDetails = \<lparr>totalKills = 0, totalDeaths = 0, totalGames = 0, successfulDownloads = 0\<rparr>"

text \<open>
  The first entry of the payload whose lower-cased team name contains the lower-cased
  search name (the inner \<^verbatim>\<open>range\<close> loop with its \<^verbatim>\<open>break\<close>).
\<close>

definition findTeamStats :: "Client \<Rightarrow> string \<Rightarrow> SeriesStats list \<Rightarrow> SeriesStats option" where
  "findTeamStats c teamName seriesDataMap =
     find (\<lambda>stats. contains (toLower c (TeamName stats)) (toLower c teamName)) seriesDataMap"

text \<open>
  One round of the detail loop: a failed fetch is skipped (\<^verbatim>\<open>continue\<close>), a payload
  without the team adds nothing, a matched payload adds its kills, deaths and games.
\<close>

definition detailStep :: "Client \<Rightarrow> string \<Rightarrow> DetailTotals \<Rightarrow> SeriesData \<Rightarrow> DetailTotals" where
  "detailStep c teamName acc series =
     (case GetSeriesStats c (ID series) of
        Inl err \<Rightarrow> acc
      | Inr seriesDataMap \<Rightarrow>
          (case findTeamStats c teamName seriesDataMap of
             None \<Rightarrow> acc
           | Some stats \<Rightarrow>
               \<lparr>totalKills = totalKills acc + SeriesStats.Kills stats,
                totalDeaths = totalDeaths acc + SeriesStats.Deaths stats,
                totalGames = totalGames acc + GamesPlayed stats,
                successfulDownloads = successfulDownloads acc + 1\<rparr>))"

text \<open>The detail loop stops at index 10: it runs over the first ten filtered series.\<close>

definition fetchDetails :: "Client \<Rightarrow> string \<Rightarrow> SeriesData list \<Rightarrow> DetailTotals" where
  "fetchDetails c teamName filteredSeries =
     foldl (detailStep c teamName) noDetails (take 10 filteredSeries)"

text \<open>The current streak: the outcome of the first series and how long it lasts.\<close>

definition currentStreak :: "SeriesData list \<Rightarrow> Streak" where
  "currentStreak filteredSeries =
     (case filteredSeries of
        [] \<Rightarrow> \<lparr>Type = ''loss'', Count = 0\<rparr>
      | first # _ \<Rightarrow>
          (let streakType = (if SeriesData.Won first then ''win'' else ''loss'')
           in \<lparr>Type = streakType,
               Count = int (length (takeWhile
                 (\<lambda>series. (streakType = ''win'' \<and> SeriesData.Won series)
                            \<or> (streakType = ''loss'' \<and> \<not> SeriesData.Won series))
                 filteredSeries))\<rparr>))"

definition totalWinsOf :: "SeriesData list \<Rightarrow> int" where
  "totalWinsOf filteredSeries = int (length (filter SeriesData.Won filteredSeries))"

text \<open>
  Steps 3 and 4 on the filtered series and the window that step 2 chose. The second
  test of \<^verbatim>\<open>successfulDownloads == 0\<close> is in the source and is kept.
\<close>

definition aggregateStats ::
  "Client \<Rightarrow> string \<Rightarrow> SeriesData list \<Rightarrow> TimeWindow \<Rightarrow> error + TeamStats" where
  "aggregateStats c teamName filteredSeries actualWindow =
     (let d = fetchDetails c teamName filteredSeries
      in if successfulDownloads d = 0 then
           Inl (ErrorString (''no detailed stats available for team '' @ teamName
                  @ '' - series may not be finished or data unavailable''))
         else if successfulDownloads d = 0 then
           Inl (InsufficientDataError teamName ''series data not finished or unavailable'' zeroTime)
         else
           (let totalWins = totalWinsOf filteredSeries;
                totalMatches = int (length filteredSeries);
                winRate = real_of_int totalWins / real_of_int totalMatches
            in if 0 < totalGames d \<and> 0 < totalDeaths d then
                 Inr \<lparr>WinRate = winRate,
                      KDRatio = real_of_int (totalKills d) / real_of_int (totalDeaths d),
                      MatchesPlayed = totalMatches,
                      Kills = totalKills d,
                      Deaths = totalDeaths d,
                      Assists = 0,
                      KillsAvg = real_of_int (totalKills d) / real_of_int (totalGames d),
                      DeathsAvg = real_of_int (totalDeaths d) / real_of_int (totalGames d),
                      AssistsAvg = 0,
                      CurrentStreak = currentStreak filteredSeries,
                      SampleSize = totalMatches,
                      Confidence = zeroConfidence,
                      ActualTimeWindow = actualWindow\<rparr>
               else
                 Inl (ErrorString (''insufficient detailed statistics available for team '' @ teamName))))"

definition GetTeamStatistics ::
  "Client \<Rightarrow> string \<Rightarrow> string \<Rightarrow> TimeWindow \<Rightarrow> string list \<Rightarrow> error + TeamStats" where
  "GetTeamStatistics c teamName title timeWindow tournamentIDs =
     (case autoSelectTournaments c title tournamentIDs of
        Inl err \<Rightarrow> Inl err
      | Inr tournamentIDs' \<Rightarrow>
          (case GetTeamSeriesHistory c teamName 50 tournamentIDs' of
             Inl err \<Rightarrow> Inl err
           | Inr seriesHistory \<Rightarrow>
               if seriesHistory = [] then
                 Inl (ErrorString (''no match data found for team '' @ teamName))
               else
                 (case resolveWindow c timeWindow seriesHistory of
                    (filteredSeries, actualWindow) \<Rightarrow>
                      if filteredSeries = [] then
                        Inl (InsufficientDataError teamName ''no recent matches found''
                               (Date (hd seriesHistory)))
                      else aggregateStats c teamName filteredSeries actualWindow)))"

section \<open>The confidence scorer\<close>

definition formatTimeWindow :: "TimeWindow \<Rightarrow> string" where
  "formatTimeWindow tw =
     (if tw = LastWeek then ''over the last week''
      else if tw = LastMonth then ''over the last month''
      else if tw = Last3Months then ''over the last 3 months''
      else if tw = Last6Months then ''over the last 6 months''
      else if tw = LastYear then ''over the last year''
      else ''in the selected time period'')"

text \<open>The first \<^verbatim>\<open>if\<close> cascade of \<^verbatim>\<open>CalculateConfidence\<close>: level and reliability score.\<close>

definition confidenceThresholds :: "int \<Rightarrow> int \<Rightarrow> ConfidenceLevel \<times> int" where
  "confidenceThresholds sampleSize totalTeamMatches =
     (if 18 \<le> totalTeamMatches then
        (if 18 \<le> sampleSize then (ConfidenceHigh, 95)
         else if 7 \<le> sampleSize then (ConfidenceMedium, 70)
         else (ConfidenceLow, 40))
      else
        (if 15 \<le> sampleSize then (ConfidenceHigh, 90)
         else if 5 \<le> sampleSize then (ConfidenceMedium, 60)
         else (ConfidenceLow, 30)))"

text \<open>The reasoning string: the sample against the total, then the \<^verbatim>\<open>switch\<close> on the level.\<close>

definition confidenceReasoning :: "int \<Rightarrow> int \<Rightarrow> TimeWindow \<Rightarrow> ConfidenceLevel \<Rightarrow> string" where
  "confidenceReasoning sampleSize totalTeamMatches timeWindow level =
     (let timeWindowStr = formatTimeWindow timeWindow;
          reasoning =
            (if sampleSize = totalTeamMatches then
               ''Based on all '' @ showInt sampleSize @ '' matches available '' @ timeWindowStr
             else
               ''Based on '' @ showInt sampleSize @ '' of '' @ showInt totalTeamMatches
                 @ '' total matches '' @ timeWindowStr)
      in if level = ConfidenceHigh then reasoning @ '' - highly reliable predictions''
         else if level = ConfidenceMedium then reasoning @ '' - moderately reliable predictions''
         else if level = ConfidenceLow then reasoning @ '' - limited data, predictions less reliable''
         else reasoning)"

definition CalculateConfidence :: "int \<Rightarrow> int \<Rightarrow> TimeWindow \<Rightarrow> Confidence" where
  "CalculateConfidence sampleSize totalTeamMatches timeWindow =
     (case confidenceThresholds sampleSize totalTeamMatches of
        (level, reliabilityScore) \<Rightarrow>
          \<lparr>Level = level,
           Confidence.SampleSize = sampleSize,
           Reasoning = confidenceReasoning sampleSize totalTeamMatches timeWindow level,
           ReliabilityScore = reliabilityScore\<rparr>)"

definition lowSampleWarning :: "string \<Rightarrow> Confidence \<Rightarrow> string" where
  "lowSampleWarning teamName conf =
     teamName @ '' has low sample size ('' @ showInt (Confidence.SampleSize conf)
       @ '' matches) - predictions less reliable''"

definition insufficientDataWarning :: "string \<Rightarrow> string" where
  "insufficientDataWarning teamName =
     teamName @ '' has insufficient data (<'' @ showInt 3
       @ '' matches) - comparison may not be meaningful''"

definition mismatchWarning :: string where
  "mismatchWarning = ''Teams have significantly different data quality - comparison may be skewed''"

definition disparityWarning :: string where
  "disparityWarning = ''Teams have significantly different match counts - consider with caution''"

text \<open>
  The last test of \<^verbatim>\<open>GenerateWarnings\<close>: with both samples positive, the quotient of the
  sample sizes is compared with the constants \<^verbatim>\<open>3.0\<close> and \<^verbatim>\<open>0.33\<close>.
\<close>

definition sampleDisparity :: "Confidence \<Rightarrow> Confidence \<Rightarrow> bool" where
  "sampleDisparity team1Confidence team2Confidence =
     (0 < Confidence.SampleSize team1Confidence \<and> 0 < Confidence.SampleSize team2Confidence \<and>
      (let ratio = real_of_int (Confidence.SampleSize team1Confidence)
                     / real_of_int (Confidence.SampleSize team2Confidence)
       in 3 < ratio \<or> ratio < 33 / 100))"

definition GenerateWarnings :: "string \<Rightarrow> Confidence \<Rightarrow> string \<Rightarrow> Confidence \<Rightarrow> string list" where
  "GenerateWarnings team1Name team1Confidence team2Name team2Confidence =
     (if Level team1Confidence = ConfidenceLow then [lowSampleWarning team1Name team1Confidence] else [])
     @ (if Level team2Confidence = ConfidenceLow then [lowSampleWarning team2Name team2Confidence] else [])
     @ (if Confidence.SampleSize team1Confidence < 3 then [insufficientDataWarning team1Name] else [])
     @ (if Confidence.SampleSize team2Confidence < 3 then [insufficientDataWarning team2Name] else [])
     @ (if (Level team1Confidence = ConfidenceHigh \<and> Level team2Confidence = ConfidenceLow)
           \<or> (Level team2Confidence = ConfidenceHigh \<and> Level team1Confidence = ConfidenceLow)
        then [mismatchWarning] else [])
     @ (if sampleDisparity team1Confidence team2Confidence then [disparityWarning] else [])"

section \<open>The trend analyser\<close>

type_synonym AlertSeverity = string

definition AlertHigh :: AlertSeverity where
  "AlertHigh = ''HIGH''"

definition AlertMedium :: AlertSeverity where
  "AlertMedium = ''MEDIUM''"

definition AlertLow :: AlertSeverity where
  "AlertLow = ''LOW''"

type_synonym AlertType = string

definition AlertPositiveShift :: AlertType where
  "AlertPositiveShift = ''POSITIVE_SHIFT''"

definition AlertNegativeShift :: AlertType where
  "AlertNegativeShift = ''NEGATIVE_SHIFT''"

definition AlertPlaystyleChange :: AlertType where
  "AlertPlaystyleChange = ''PLAYSTYLE_CHANGE''"

definition AlertConsistency :: AlertType where
  "AlertConsistency = ''CONSISTENCY''"


record TrendAlert =
  Type :: AlertType
  Severity :: AlertSeverity
  Message :: string
  Context :: string

record PeriodStats =
  TimeWindow :: TimeWindow
  WinRate :: real
  KDRatio :: real
  Matches :: int

record TrendReport =
  Team :: string
  Title :: string
  Overall :: PeriodStats
  Recent :: PeriodStats
  Alerts :: "TrendAlert list"
  Confidence :: Confidence

definition determineSeverity :: "float64 \<Rightarrow> AlertSeverity" where
  "determineSeverity changePct =
     (if fge changePct 25 then AlertHigh
      else if fge changePct 15 then AlertMedium
      else AlertLow)"

text \<open>
  The relative changes, in percent: \<^verbatim>\<open>(recent - overall) / overall * 100\<close>, the
  difference, the quotient and the product each rounded.
\<close>

definition winRateChangePct :: "PeriodStats \<Rightarrow> PeriodStats \<Rightarrow> float64" where
  "winRateChangePct overall recent =
     (let recentWinRate = f64 (PeriodStats.WinRate recent);
          overallWinRate = f64 (PeriodStats.WinRate overall);
          winRateChange = fdiv (f64 (recentWinRate - overallWinRate)) overallWinRate
      in fscale winRateChange 100)"

definition kdChangePct :: "PeriodStats \<Rightarrow> PeriodStats \<Rightarrow> float64" where
  "kdChangePct overall recent =
     (let recentKDRatio = f64 (PeriodStats.KDRatio recent);
          overallKDRatio = f64 (PeriodStats.KDRatio overall);
          kdChange = fdiv (f64 (recentKDRatio - overallKDRatio)) overallKDRatio
      in fscale kdChange 100)"

text \<open>The block "Analyze win rate change": what it appends.\<close>

definition winRateAlerts :: "PeriodStats \<Rightarrow> PeriodStats \<Rightarrow> TrendAlert list" where
  "winRateAlerts overall recent =
     (let pct = winRateChangePct overall recent
      in if fge (fabs pct) 15 then
           [\<lparr>Type = (if flt pct 0 then AlertNegativeShift else AlertPositiveShift),
             Severity = determineSeverity (fabs pct),
             Message = ''Win rate '' @ (if flt pct 0 then ''decreased'' else ''increased'')
                         @ '' by '' @ fmtFloat0 (fabs pct) @ ''% in recent matches'',
             Context = (if flt pct 0 then ''Team is underperforming in recent matches''
                        else ''Team is performing significantly better recently'')\<rparr>]
         else [])"

text \<open>The block "Analyze K/D ratio change": what it appends.\<close>

definition kdAlerts :: "PeriodStats \<Rightarrow> PeriodStats \<Rightarrow> TrendAlert list" where
  "kdAlerts overall recent =
     (let pct = kdChangePct overall recent
      in if fge (fabs pct) 10 then
           [\<lparr>Type = AlertPlaystyleChange,
             Severity = determineSeverity (fabs pct),
             Message = ''K/D ratio '' @ (if flt pct 0 then ''declined'' else ''improved'')
                         @ '' by '' @ fmtFloat0 (fabs pct) @ ''%'',
             Context = (if flt pct 0 then ''Less efficient or more deaths recently''
                        else ''More aggressive or efficient plays'')\<rparr>]
         else [])"

definition insufficientRecentAlert :: "PeriodStats \<Rightarrow> TrendAlert" where
  "insufficientRecentAlert recent =
     \<lparr>Type = AlertConsistency, Severity = AlertLow,
      Message = ''Insufficient recent data for trend analysis'',
      Context = ''Only '' @ showInt (Matches recent) @ '' recent match(es) available''\<rparr>"

definition consistentAlert :: TrendAlert where
  "consistentAlert =
     \<lparr>Type = AlertConsistency, Severity = AlertLow,
      Message = ''Performance remains consistent'',
      Context = ''No significant changes detected in recent matches''\<rparr>"

definition generateAlerts :: "PeriodStats \<Rightarrow> PeriodStats \<Rightarrow> TrendAlert list" where
  "generateAlerts overall recent =
     (if Matches recent < 2 then [insufficientRecentAlert recent]
      else
        (let alerts = winRateAlerts overall recent @ kdAlerts overall recent
         in if alerts = [] \<and> 3 \<le> Matches recent then alerts @ [consistentAlert] else alerts))"

definition calculateTrendConfidence :: "int \<Rightarrow> int \<Rightarrow> Confidence" where
  "calculateTrendConfidence recentMatches overallMatches =
     (if recentMatches < 3 then
        \<lparr>Level = ConfidenceLow, Confidence.SampleSize = recentMatches,
         Reasoning = ''Recent sample is very small ('' @ showInt recentMatches
                       @ '' matches) - trend may not be reliable'',
         ReliabilityScore = 35\<rparr>
      else if recentMatches < 5 then
        \<lparr>Level = ConfidenceMedium, Confidence.SampleSize = recentMatches,
         Reasoning = ''Recent sample is small ('' @ showInt recentMatches
                       @ '' matches) but trend is observable'',
         ReliabilityScore = 65\<rparr>
      else
        \<lparr>Level = ConfidenceHigh, Confidence.SampleSize = recentMatches,
         Reasoning = ''Recent sample is adequate ('' @ showInt recentMatches
                       @ '' matches) - trend is clear'',
         ReliabilityScore = 85\<rparr>)"

definition AnalyzeTrends :: "Client \<Rightarrow> string \<Rightarrow> string \<Rightarrow> string list \<Rightarrow> error + TrendReport" where
  "AnalyzeTrends c teamName title tournamentIDs =
     (case GetTeamStatistics c teamName title Last3Months tournamentIDs of
        Inl err \<Rightarrow> Inl (WrapError ''failed to fetch overall stats: '' err)
      | Inr overallStats \<Rightarrow>
          (case GetTeamStatistics c teamName title LastWeek tournamentIDs of
             Inl err \<Rightarrow> Inl (WrapError ''failed to fetch recent stats: '' err)
           | Inr recentStats \<Rightarrow>
               (let overall = \<lparr>TimeWindow = Last3Months,
                                WinRate = TeamStats.WinRate overallStats,
                                KDRatio = TeamStats.KDRatio overallStats,
                                Matches = MatchesPlayed overallStats\<rparr>;
                    recent = \<lparr>TimeWindow = LastWeek,
                               WinRate = TeamStats.WinRate recentStats,
                               KDRatio = TeamStats.KDRatio recentStats,
                               Matches = MatchesPlayed recentStats\<rparr>
                in Inr \<lparr>Team = teamName, Title = title, Overall = overall, Recent = recent,
                        Alerts = generateAlerts overall recent,
                        Confidence = calculateTrendConfidence (Matches recent) (Matches overall)\<rparr>)))"

section \<open>The comparison builder\<close>

record StatVal =
  Avg :: real
  Total :: int

record ComparisonStats =
  WinRate :: real
  KDRatio :: real
  Kills :: StatVal
  Deaths :: StatVal
  CurrentStreak :: Streak
  Confidence :: Confidence

record ComparisonTeamData =
  Name :: string
  Stats :: ComparisonStats

record Advantages =
  Team1 :: "string list"
  Team2 :: "string list"

record DataQuality =
  Team1Matches :: int
  Team2Matches :: int
  TimeRange :: TimeWindow

record RecentTrends =
  Team1HasAlerts :: bool
  Team2HasAlerts :: bool
  Team1Alerts :: "TrendAlert list"
  Team2Alerts :: "TrendAlert list"

record ComparisonReport =
  Team1 :: ComparisonTeamData
  Team2 :: ComparisonTeamData
  Advantages :: Advantages
  DataQuality :: DataQuality
  Warnings :: "string list"
  RecentTrends :: "RecentTrends option"

definition buildComparisonStats :: "TeamStats \<Rightarrow> ComparisonStats" where
  "buildComparisonStats stats =
     \<lparr>WinRate = TeamStats.WinRate stats,
      KDRatio = TeamStats.KDRatio stats,
      Kills = \<lparr>Avg = TeamStats.KillsAvg stats, Total = TeamStats.Kills stats\<rparr>,
      Deaths = \<lparr>Avg = TeamStats.DeathsAvg stats, Total = TeamStats.Deaths stats\<rparr>,
      CurrentStreak = TeamStats.CurrentStreak stats,
      Confidence = TeamStats.Confidence stats\<rparr>"

definition filterSignificantAlerts :: "TrendAlert list \<Rightarrow> TrendAlert list" where
  "filterSignificantAlerts alerts =
     filter (\<lambda>alert. TrendAlert.Type alert \<noteq> AlertConsistency \<or> Severity alert \<noteq> AlertLow) alerts"

definition analyzeRecentTrends ::
  "Client \<Rightarrow> string \<Rightarrow> string \<Rightarrow> string \<Rightarrow> string list \<Rightarrow> RecentTrends option" where
  "analyzeRecentTrends c team1Name team2Name title tournamentIDs =
     (let r1 = AnalyzeTrends c team1Name title tournamentIDs;
          r2 = AnalyzeTrends c team2Name title tournamentIDs
      in if isl r1 \<and> isl r2 then None
         else
           (let rt0 = \<lparr>Team1HasAlerts = False, Team2HasAlerts = False,
                       Team1Alerts = [], Team2Alerts = []\<rparr>;
                rt1 = (case r1 of
                         Inr trends1 \<Rightarrow>
                           if Alerts trends1 \<noteq> [] then
                             rt0\<lparr>Team1HasAlerts := True,
                                 Team1Alerts := filterSignificantAlerts (Alerts trends1)\<rparr>
                           else rt0
                       | Inl err1 \<Rightarrow> rt0);
                rt2 = (case r2 of
                         Inr trends2 \<Rightarrow>
                           if Alerts trends2 \<noteq> [] then
                             rt1\<lparr>Team2HasAlerts := True,
                                 Team2Alerts := filterSignificantAlerts (Alerts trends2)\<rparr>
                           else rt1
                       | Inl err2 \<Rightarrow> rt1)
            in if Team1HasAlerts rt2 \<or> Team2HasAlerts rt2 then Some rt2 else None))"

text \<open>
  The win-rate block of \<^verbatim>\<open>calculateAdvantages\<close>, on the rounded difference: the
  thresholds are the constants \<^verbatim>\<open>0.05\<close> and \<^verbatim>\<open>-0.05\<close> of the source, the value printed
  is the rounded product \<^verbatim>\<open>wrDiff*100\<close>.
\<close>

definition winRateMessage :: "real \<Rightarrow> string" where
  "winRateMessage pct = ''Higher win rate (+'' @ fmtF0 pct @ ''%)''"

definition addWinRateAdvantage :: "real \<Rightarrow> Advantages \<Rightarrow> Advantages" where
  "addWinRateAdvantage wrDiff adv =
     (if f64 (5 / 100) \<le> wrDiff then
        adv\<lparr>Advantages.Team1 := Advantages.Team1 adv @ [winRateMessage (f64 (wrDiff * 100))]\<rparr>
      else if wrDiff \<le> - f64 (5 / 100) then
        adv\<lparr>Advantages.Team2 := Advantages.Team2 adv @ [winRateMessage (f64 (- wrDiff * 100))]\<rparr>
      else adv)"

text \<open>The K/D block, with the constants \<^verbatim>\<open>0.1\<close> and \<^verbatim>\<open>-0.1\<close>.\<close>

definition kdMessage :: "real \<Rightarrow> string" where
  "kdMessage diff = ''Better K/D (+'' @ fmtF1 diff @ '')''"

definition addKDAdvantage :: "real \<Rightarrow> Advantages \<Rightarrow> Advantages" where
  "addKDAdvantage kdDiff adv =
     (if f64 (1 / 10) \<le> kdDiff then
        adv\<lparr>Advantages.Team1 := Advantages.Team1 adv @ [kdMessage kdDiff]\<rparr>
      else if kdDiff \<le> - f64 (1 / 10) then
        adv\<lparr>Advantages.Team2 := Advantages.Team2 adv @ [kdMessage (- kdDiff)]\<rparr>
      else adv)"

text \<open>The streak block.\<close>

definition streakMessage :: string where
  "streakMessage = ''Stronger win streak''"

definition addStreakAdvantage :: "Streak \<Rightarrow> Streak \<Rightarrow> Advantages \<Rightarrow> Advantages" where
  "addStreakAdvantage s1 s2 adv =
     (if Streak.Type s1 = ''win'' \<and> (Streak.Type s2 \<noteq> ''win'' \<or> Count s2 < Count s1) then
        adv\<lparr>Advantages.Team1 := Advantages.Team1 adv @ [streakMessage]\<rparr>
      else if Streak.Type s2 = ''win'' \<and> (Streak.Type s1 \<noteq> ''win'' \<or> Count s1 < Count s2) then
        adv\<lparr>Advantages.Team2 := Advantages.Team2 adv @ [streakMessage]\<rparr>
      else adv)"

definition calculateAdvantages :: "ComparisonReport \<Rightarrow> ComparisonReport" where
  "calculateAdvantages report =
     (let stats1 = Stats (Team1 report);
          stats2 = Stats (Team2 report);
          wrDiff = f64 (f64 (ComparisonStats.WinRate stats1) - f64 (ComparisonStats.WinRate stats2));
          kdDiff = f64 (f64 (ComparisonStats.KDRatio stats1) - f64 (ComparisonStats.KDRatio stats2))
      in report\<lparr>Advantages :=
           addStreakAdvantage (ComparisonStats.CurrentStreak stats1) (ComparisonStats.CurrentStreak stats2)
             (addKDAdvantage kdDiff
               (addWinRateAdvantage wrDiff (Advantages report)))\<rparr>)"

definition CompareTeams ::
  "Client \<Rightarrow> string \<Rightarrow> string \<Rightarrow> string \<Rightarrow> TimeWindow \<Rightarrow> string list \<Rightarrow> error + ComparisonReport" where
  "CompareTeams c team1Name team2Name title timeWindow tournamentIDs =
     (case GetTeamStatistics c team1Name title timeWindow tournamentIDs of
        Inl err1 \<Rightarrow> Inl (WrapError (''failed to fetch stats for '' @ team1Name @ '': '') err1)
      | Inr stats1 \<Rightarrow>
          (case GetTeamStatistics c team2Name title timeWindow tournamentIDs of
             Inl err2 \<Rightarrow> Inl (WrapError (''failed to fetch stats for '' @ team2Name @ '': '') err2)
           | Inr stats2 \<Rightarrow>
               (let stats1' = stats1\<lparr>TeamStats.Confidence :=
                                CalculateConfidence (TeamStats.SampleSize stats1) (MatchesPlayed stats1) timeWindow\<rparr>;
                    stats2' = stats2\<lparr>TeamStats.Confidence :=
                                CalculateConfidence (TeamStats.SampleSize stats2) (MatchesPlayed stats2) timeWindow\<rparr>;
                    warnings = GenerateWarnings team1Name (TeamStats.Confidence stats1')
                                 team2Name (TeamStats.Confidence stats2');
                    report = calculateAdvantages
                      \<lparr>Team1 = \<lparr>Name = team1Name, Stats = buildComparisonStats stats1'\<rparr>,
                       Team2 = \<lparr>Name = team2Name, Stats = buildComparisonStats stats2'\<rparr>,
                       Advantages = \<lparr>Advantages.Team1 = [], Team2 = []\<rparr>,
                       DataQuality = \<lparr>Team1Matches = MatchesPlayed stats1',
                                      Team2Matches = MatchesPlayed stats2',
                                      TimeRange = timeWindow\<rparr>,
                       Warnings = warnings,
                       RecentTrends = None\<rparr>
                in if timeWindow = Last3Months \<or> timeWindow = Last6Months \<or> timeWindow = LastYear then
                     Inr (report\<lparr>RecentTrends :=
                            analyzeRecentTrends c team1Name team2Name title tournamentIDs\<rparr>)
                   else Inr report)))"

section \<open>The report assembler\<close>

text \<open>Go's integer division truncates towards zero.\<close>

definition goDiv :: "int \<Rightarrow> int \<Rightarrow> int" where
  "goDiv a b = sgn a * sgn b * (\<bar>a\<bar> div \<bar>b\<bar>)"

definition calculateOverallConfidence :: "ComparisonReport \<Rightarrow> Confidence" where
  "calculateOverallConfidence comparison =
     (let team1Conf = ComparisonStats.Confidence (Stats (Team1 comparison));
          team2Conf = ComparisonStats.Confidence (Stats (Team2 comparison));
          lowestLevel =
            (if Level team2Conf = ConfidenceLow then ConfidenceLow
             else if Level team2Conf = ConfidenceMedium \<and> Level team1Conf = ConfidenceHigh
               then ConfidenceMedium
             else Level team1Conf);
          totalMatches = Team1Matches (DataQuality comparison) + Team2Matches (DataQuality comparison);
          avgMatches = goDiv totalMatches 2
      in \<lparr>Level = lowestLevel,
          Confidence.SampleSize = avgMatches,
          Reasoning = ''Based on '' @ showInt totalMatches @ '' matches analyzed across both teams'',
          ReliabilityScore = goDiv (ReliabilityScore team1Conf + ReliabilityScore team2Conf) 2\<rparr>)"

section \<open>Reference notions used by the properties\<close>

text \<open>The order of the confidence levels: LOW below MEDIUM below HIGH.\<close>

definition levelRank :: "ConfidenceLevel \<Rightarrow> nat" where
  "levelRank l = (if l = ConfidenceHigh then 2 else if l = ConfidenceMedium then 1 else 0)"

definition validLevel :: "ConfidenceLevel \<Rightarrow> bool" where
  "validLevel l = (l = ConfidenceHigh \<or> l = ConfidenceMedium \<or> l = ConfidenceLow)"

text \<open>
  The relative change of a value against its baseline, in percent, for a nonzero baseline,
  in the arithmetic of \<^verbatim>\<open>float64\<close>: the difference, its quotient by the baseline and
  the product with 100, each rounded.
\<close>

definition relativeChangeF64 :: "real \<Rightarrow> real \<Rightarrow> real" where
  "relativeChangeF64 baseline recent =
     f64 (f64 (f64 (f64 recent - f64 baseline) / f64 baseline) * 100)"

text \<open>
  The detail-successful subset: for each of the first ten filtered series whose detail
  fetch succeeds and whose payload holds the team, that team's payload entry.
\<close>

definition detailOf :: "Client \<Rightarrow> string \<Rightarrow> SeriesData \<Rightarrow> SeriesStats option" where
  "detailOf c teamName series =
     (case GetSeriesStats c (ID series) of
        Inl err \<Rightarrow> None
      | Inr seriesDataMap \<Rightarrow> findTeamStats c teamName seriesDataMap)"

definition detailSubset :: "Client \<Rightarrow> string \<Rightarrow> SeriesData list \<Rightarrow> SeriesStats list" where
  "detailSubset c teamName filteredSeries =
     List.map_filter (detailOf c teamName) (take 10 filteredSeries)"

text \<open>The messages that one call of \<^verbatim>\<open>calculateAdvantages\<close> appends for each side.\<close>

definition emittedTeam1 :: "ComparisonReport \<Rightarrow> string list" where
  "emittedTeam1 report =
     drop (length (Advantages.Team1 (Advantages report)))
          (Advantages.Team1 (Advantages (calculateAdvantages report)))"

definition emittedTeam2 :: "ComparisonReport \<Rightarrow> string list" where
  "emittedTeam2 report =
     drop (length (Advantages.Team2 (Advantages report)))
          (Advantages.Team2 (Advantages (calculateAdvantages report)))"

text \<open>The win-rate difference of a comparison, in the arithmetic of \<^verbatim>\<open>float64\<close>.\<close>

definition wrDiffOf :: "ComparisonReport \<Rightarrow> real" where
  "wrDiffOf report =
     f64 (f64 (ComparisonStats.WinRate (Stats (Team1 report)))
          - f64 (ComparisonStats.WinRate (Stats (Team2 report))))"

text \<open>The same for the K/D ratios.\<close>

definition kdDiffOf :: "ComparisonReport \<Rightarrow> real" where
  "kdDiffOf report =
     f64 (f64 (ComparisonStats.KDRatio (Stats (Team1 report)))
          - f64 (ComparisonStats.KDRatio (Stats (Team2 report))))"

text \<open>The number that a string of decimal digits denotes.\<close>

definition digitValue :: "char \<Rightarrow> nat option" where
  "digitValue ch = map_of (zip ''0123456789'' [0, 1, 2, 3, 4, 5, 6, 7, 8, 9]) ch"

fun readDigits :: "nat \<Rightarrow> string \<Rightarrow> nat option" where
  "readDigits acc [] = Some acc"
| "readDigits acc (ch # rest) =
     (case digitValue ch of
        None \<Rightarrow> None
      | Some d \<Rightarrow> readDigits (10 * acc + d) rest)"

definition readNat :: "string \<Rightarrow> nat option" where
  "readNat s = (if s = [] then None else readDigits 0 s)"

definition isWinRateAdvantage :: "string \<Rightarrow> bool" where
  "isWinRateAdvantage msg = prefix ''Higher win rate'' msg"

definition streakStronger :: "Streak \<Rightarrow> Streak \<Rightarrow> bool" where
  "streakStronger s1 s2 =
     (Streak.Type s1 = ''win'' \<and> (Streak.Type s2 \<noteq> ''win'' \<or> Count s2 < Count s1))"

section \<open>Example inputs\<close>

text \<open>
  A clock for the examples: instants count days, a month has 30 days and a year 365.
\<close>

definition dayClock :: "time \<Rightarrow> int \<Rightarrow> int \<Rightarrow> int \<Rightarrow> time" where
  "dayClock t years months days = t + 365 * years + 30 * months + days"

definition exampleSeries :: "string \<Rightarrow> time \<Rightarrow> bool \<Rightarrow> SeriesData" where
  "exampleSeries sid date won =
     \<lparr>ID = sid, TeamID = ''t1'', Date = date, Format = ''BO3'', Won = won, Opponent = ''Team Beta''\<rparr>"

definition exampleStats :: "string \<Rightarrow> string \<Rightarrow> int \<Rightarrow> int \<Rightarrow> int \<Rightarrow> SeriesStats" where
  "exampleStats sid name kills deaths games =
     \<lparr>SeriesID = sid, TeamID = ''t1'', TeamName = name, GamesPlayed = games, Wins = 0,
      Won = True, Kills = kills, Deaths = deaths, Assists = 0, RoundsWon = 0, RoundsLost = 0,
      KillsAvg = 0, DeathsAvg = 0, KDRatio = 0\<rparr>"

text \<open>A client at day 1000 that answers every history request with \<open>hist\<close>.\<close>

text \<open>The examples are in ASCII, where \<^verbatim>\<open>strings.ToLower\<close> maps the letters A to Z.\<close>

definition asciiLowerChar :: "char \<Rightarrow> char" where
  "asciiLowerChar ch =
     (case map_of (zip ''ABCDEFGHIJKLMNOPQRSTUVWXYZ'' ''abcdefghijklmnopqrstuvwxyz'') ch of
        Some l \<Rightarrow> l
      | None \<Rightarrow> ch)"

definition asciiToLower :: "string \<Rightarrow> string" where
  "asciiToLower s = map asciiLowerChar s"

definition exampleClient :: "SeriesData list \<Rightarrow> (string \<Rightarrow> error + SeriesStats list) \<Rightarrow> Client" where
  "exampleClient hist details =
     \<lparr>timeNow = 1000, addDate = dayClock,
      GetTeamSeriesHistory = (\<lambda>team limit tournamentIDs. Inr hist),
      GetSeriesStats = details,
      toLower = asciiToLower\<rparr>"

text \<open>One series, won sixty days ago, three games long, with its details available.\<close>

definition oldSeriesClient :: Client where
  "oldSeriesClient =
     exampleClient [exampleSeries ''s1'' 940 True]
       (\<lambda>sid. Inr [exampleStats sid ''Team Beta'' 20 30 3, exampleStats sid ''Team Alpha'' 30 20 3])"

text \<open>One series of two days ago whose detail fetch fails.\<close>

definition noDetailClient :: Client where
  "noDetailClient =
     exampleClient [exampleSeries ''s1'' 998 True]
       (\<lambda>sid. Inl (ErrorString ''series has not finished yet''))"

text \<open>One series of two days ago in which the team did not die once.\<close>

definition zeroDeathsClient :: Client where
  "zeroDeathsClient =
     exampleClient [exampleSeries ''s1'' 998 True]
       (\<lambda>sid. Inr [exampleStats sid ''Team Alpha'' 10 0 2])"

text \<open>
  Four recent series: the details of the first and the last are available, the fetch of
  the second fails, the payload of the third does not hold the team.
\<close>

definition mixedHistory :: "SeriesData list" where
  "mixedHistory =
     [exampleSeries ''s1'' 999 True, exampleSeries ''s2'' 998 False,
      exampleSeries ''s3'' 997 True, exampleSeries ''s4'' 996 True]"

definition mixedClient :: Client where
  "mixedClient =
     exampleClient mixedHistory
       (\<lambda>sid. if sid = ''s1'' then Inr [exampleStats sid ''Team Beta'' 20 30 3,
                                         exampleStats sid ''Team Alpha'' 30 20 3]
              else if sid = ''s2'' then Inl (ErrorString ''series has not finished yet'')
              else if sid = ''s3'' then Inr [exampleStats sid ''Team Beta'' 25 25 2]
              else Inr [exampleStats sid ''Team Alpha'' 20 20 2])"

definition steadyBaseline :: PeriodStats where
  "steadyBaseline = \<lparr>TimeWindow = Last3Months, WinRate = 1 / 2, KDRatio = 1, Matches = 12\<rparr>"

definition slightlyBetterKD :: PeriodStats where
  "slightlyBetterKD = \<lparr>TimeWindow = LastWeek, WinRate = 1 / 2, KDRatio = 112 / 100, Matches = 5\<rparr>"

definition muchBetterKD :: PeriodStats where
  "muchBetterKD = \<lparr>TimeWindow = LastWeek, WinRate = 1 / 2, KDRatio = 13 / 10, Matches = 5\<rparr>"

definition winlessBaseline :: PeriodStats where
  "winlessBaseline = \<lparr>TimeWindow = Last3Months, WinRate = 0, KDRatio = 1, Matches = 6\<rparr>"

definition evenRecent :: PeriodStats where
  "evenRecent = \<lparr>TimeWindow = LastWeek, WinRate = 1 / 2, KDRatio = 1, Matches = 2\<rparr>"

text \<open>A comparison of a team with 20 matches against a team with 10, as \<^verbatim>\<open>CompareTeams\<close> builds it.\<close>

definition exampleTeamStats :: "real \<Rightarrow> int \<Rightarrow> TeamStats" where
  "exampleTeamStats winRate matches =
     \<lparr>TeamStats.WinRate = winRate, KDRatio = 1, MatchesPlayed = matches, Kills = 100, Deaths = 100,
      Assists = 0, KillsAvg = 10, DeathsAvg = 10, AssistsAvg = 0,
      CurrentStreak = \<lparr>Streak.Type = ''loss'', Count = 1\<rparr>, SampleSize = matches,
      Confidence = CalculateConfidence matches matches Last3Months,
      ActualTimeWindow = Last3Months\<rparr>"

text \<open>The comparison of two teams of 20 matches each with the given win rates.\<close>

definition winRateComparison :: "real \<Rightarrow> real \<Rightarrow> ComparisonReport" where
  "winRateComparison winRate1 winRate2 =
     \<lparr>Team1 = \<lparr>Name = ''Team Alpha'', Stats = buildComparisonStats (exampleTeamStats winRate1 20)\<rparr>,
      Team2 = \<lparr>Name = ''Team Beta'', Stats = buildComparisonStats (exampleTeamStats winRate2 20)\<rparr>,
      Advantages = \<lparr>Advantages.Team1 = [], Team2 = []\<rparr>,
      DataQuality = \<lparr>Team1Matches = 20, Team2Matches = 20, TimeRange = Last3Months\<rparr>,
      Warnings = [],
      RecentTrends = None\<rparr>"

definition exampleComparison :: ComparisonReport where
  "exampleComparison =
     \<lparr>Team1 = \<lparr>Name = ''Team Alpha'', Stats = buildComparisonStats (exampleTeamStats (65 / 100) 20)\<rparr>,
      Team2 = \<lparr>Name = ''Team Beta'', Stats = buildComparisonStats (exampleTeamStats (55 / 100) 10)\<rparr>,
      Advantages = \<lparr>Advantages.Team1 = [], Team2 = []\<rparr>,
      DataQuality = \<lparr>Team1Matches = 20, Team2Matches = 10, TimeRange = Last3Months\<rparr>,
      Warnings = [],
      RecentTrends = None\<rparr>"

section \<open>Properties\<close>

lemmas TimeWindow_defs = LastWeek_def LastMonth_def Last3Months_def Last6Months_def LastYear_def

lemmas ConfidenceLevel_defs = ConfidenceHigh_def ConfidenceMedium_def ConfidenceLow_def

lemmas Alert_defs = AlertHigh_def AlertMedium_def AlertLow_def
  AlertPositiveShift_def AlertNegativeShift_def AlertPlaystyleChange_def AlertConsistency_def

lemmas example_defs = oldSeriesClient_def noDetailClient_def zeroDeathsClient_def mixedClient_def
  mixedHistory_def exampleClient_def exampleSeries_def exampleStats_def dayClock_def

lemmas GetTeamStatistics_eval = GetTeamStatistics_def autoSelectTournaments_def asciiToLower_def
  asciiLowerChar_def resolveWindow_def getWindowFallbackSequence_def calculateCutoffDate_def
  filterByCutoff_def aggregateStats_def fetchDetails_def detailStep_def findTeamStats_def
  noDetails_def totalWinsOf_def currentStreak_def zeroConfidence_def

lemmas alert_eval = generateAlerts_def winRateAlerts_def kdAlerts_def winRateChangePct_def
  kdChangePct_def fdiv_def determineSeverity_def consistentAlert_def insufficientRecentAlert_def
  fmtF0_def roundHalfEven_def showNat.simps digitChar_def Let_def

subsection \<open>The rounding to float64\<close>

text \<open>
  The rounding keeps the sign, does not change a value that has a significand of 53 bits,
  and is monotone: it is the rounding to nearest of IEEE 754 on an unbounded exponent range.
\<close>

lemma pow2_powi: "pow2 k = 2 powi k"
  by (simp add: pow2_def power_int_def power_one_over)

lemma pow2_pos [simp]: "0 < pow2 k"
  by (simp add: pow2_powi)

lemma pow2_nonneg [simp]: "0 \<le> pow2 k"
  using pow2_pos [of k] by linarith

lemma pow2_ne0 [simp]: "pow2 k \<noteq> 0"
  using pow2_pos [of k] by linarith

lemma pow2_add: "pow2 (a + b) = pow2 a * pow2 b"
  by (simp add: pow2_powi power_int_add)

lemma pow2_mono: "a \<le> b \<Longrightarrow> pow2 a \<le> pow2 b"
  by (simp add: pow2_powi power_int_increasing)

lemma pow2_strict_mono: "a < b \<Longrightarrow> pow2 a < pow2 b"
  by (simp add: pow2_powi power_int_strict_increasing)

lemma pow2_nat: "0 \<le> k \<Longrightarrow> pow2 k = 2 ^ nat k"
  by (simp add: pow2_def)

lemma real_pow2_le: "(2::int) ^ n \<le> m \<Longrightarrow> (2::real) ^ n \<le> real_of_int m"
  by (metis of_int_le_iff of_int_numeral of_int_power)

lemma real_le_pow2: "m \<le> (2::int) ^ n \<Longrightarrow> real_of_int m \<le> (2::real) ^ n"
  by (metis of_int_le_iff of_int_numeral of_int_power)

lemma bitlen_ge1: "0 < n \<Longrightarrow> 1 \<le> bitlen n"
  by (auto simp: bitlen_alt_def)

lemma expo_lower:
  assumes "0 < x"
  shows "pow2 (expo x) \<le> x"
proof (cases "1 \<le> x")
  case True
  then have p: "0 < \<lfloor>x\<rfloor>" by linarith
  from bitlen_bounds [OF p] have "2 ^ nat (bitlen \<lfloor>x\<rfloor> - 1) \<le> \<lfloor>x\<rfloor>" by simp
  then have "(2::real) ^ nat (bitlen \<lfloor>x\<rfloor> - 1) \<le> real_of_int \<lfloor>x\<rfloor>"
    by (rule real_pow2_le)
  also have "\<dots> \<le> x" by linarith
  finally have "(2::real) ^ nat (bitlen \<lfloor>x\<rfloor> - 1) \<le> x" .
  then show ?thesis using True bitlen_ge1 [OF p]
    by (simp add: expo_def pow2_def)
next
  case False
  with assms have x1: "x < 1" by simp
  let ?n = "\<lceil>1 / x\<rceil> - 1"
  have "1 < 1 / x" using assms x1 by simp
  then have n: "0 < ?n" by linarith
  from bitlen_bounds [OF n] have "?n < 2 ^ nat (bitlen ?n)" by simp
  then have "?n + 1 \<le> 2 ^ nat (bitlen ?n)" by simp
  then have "real_of_int (?n + 1) \<le> (2::real) ^ nat (bitlen ?n)"
    by (rule real_le_pow2)
  moreover have "1 / x \<le> real_of_int (?n + 1)" by simp
  ultimately have "1 / x \<le> (2::real) ^ nat (bitlen ?n)" by linarith
  then have "1 / 2 ^ nat (bitlen ?n) \<le> x"
    using assms by (simp add: field_simps)
  moreover have "pow2 (expo x) = 1 / 2 ^ nat (bitlen ?n)"
    using False bitlen_ge1 [OF n] by (simp add: expo_def pow2_def)
  ultimately show ?thesis by simp
qed

lemma expo_upper:
  assumes "0 < x"
  shows "x < pow2 (expo x + 1)"
proof (cases "1 \<le> x")
  case True
  then have p: "0 < \<lfloor>x\<rfloor>" by linarith
  from bitlen_bounds [OF p] have "\<lfloor>x\<rfloor> < 2 ^ nat (bitlen \<lfloor>x\<rfloor>)" by simp
  then have "\<lfloor>x\<rfloor> + 1 \<le> 2 ^ nat (bitlen \<lfloor>x\<rfloor>)" by simp
  then have "real_of_int (\<lfloor>x\<rfloor> + 1) \<le> (2::real) ^ nat (bitlen \<lfloor>x\<rfloor>)"
    by (rule real_le_pow2)
  moreover have "x < real_of_int (\<lfloor>x\<rfloor> + 1)" by linarith
  ultimately have "x < (2::real) ^ nat (bitlen \<lfloor>x\<rfloor>)" by linarith
  moreover have "pow2 (expo x + 1) = 2 ^ nat (bitlen \<lfloor>x\<rfloor>)"
    using True bitlen_ge1 [OF p] by (simp add: expo_def pow2_def)
  ultimately show ?thesis by simp
next
  case False
  with assms have x1: "x < 1" by simp
  let ?n = "\<lceil>1 / x\<rceil> - 1"
  have "1 < 1 / x" using assms x1 by simp
  then have n: "0 < ?n" by linarith
  have b1: "1 \<le> bitlen ?n" by (rule bitlen_ge1 [OF n])
  from bitlen_bounds [OF n] have "2 ^ nat (bitlen ?n - 1) \<le> ?n" by simp
  then have "(2::real) ^ nat (bitlen ?n - 1) \<le> real_of_int ?n"
    by (rule real_pow2_le)
  moreover have "real_of_int ?n < 1 / x" by linarith
  ultimately have lt: "(2::real) ^ nat (bitlen ?n - 1) < 1 / x" by linarith
  then have "x * 2 ^ nat (bitlen ?n - 1) < 1"
    using assms by (simp add: field_simps)
  then have "x < 1 / 2 ^ nat (bitlen ?n - 1)"
    by (simp add: field_simps)
  moreover have "pow2 (expo x + 1) = 1 / 2 ^ nat (bitlen ?n - 1)"
  proof (cases "bitlen ?n = 1")
    case True
    then show ?thesis using False by (simp add: expo_def pow2_def)
  next
    case False
    with b1 have "1 < bitlen ?n" by simp
    then have "nat (bitlen ?n - 1) = nat (- (- bitlen ?n + 1))" by simp
    with \<open>1 < bitlen ?n\<close> \<open>\<not> 1 \<le> x\<close> show ?thesis
      by (simp add: expo_def pow2_def)
  qed
  ultimately show ?thesis by simp
qed

lemma expo_unique:
  assumes "0 < x" and "pow2 e \<le> x" and "x < pow2 (e + 1)"
  shows "expo x = e"
proof (rule ccontr)
  assume ne: "expo x \<noteq> e"
  show False
  proof (cases "expo x < e")
    case True
    then have "pow2 (expo x + 1) \<le> pow2 e" by (simp add: pow2_mono)
    with expo_upper [OF assms(1)] assms(2) show False by linarith
  next
    case False
    with ne have "e + 1 \<le> expo x" by simp
    then have "pow2 (e + 1) \<le> pow2 (expo x)" by (rule pow2_mono)
    with expo_lower [OF assms(1)] assms(3) show False by linarith
  qed
qed


lemma roundHalfEven_of_int [simp]: "roundHalfEven (real_of_int k) = k"
  by (simp add: roundHalfEven_def)

lemma roundHalfEven_floor: "\<lfloor>x\<rfloor> \<le> roundHalfEven x" "roundHalfEven x \<le> \<lfloor>x\<rfloor> + 1"
  by (simp_all add: roundHalfEven_def Let_def)

lemma roundHalfEven_ge: "real_of_int k \<le> x \<Longrightarrow> k \<le> roundHalfEven x"
proof -
  assume "real_of_int k \<le> x"
  then have "k \<le> \<lfloor>x\<rfloor>" by (simp add: le_floor_iff)
  with roundHalfEven_floor(1) [of x] show ?thesis by linarith
qed

lemma roundHalfEven_le: "x \<le> real_of_int k \<Longrightarrow> roundHalfEven x \<le> k"
proof -
  assume a: "x \<le> real_of_int k"
  show ?thesis
  proof (cases "x = real_of_int k")
    case True
    then show ?thesis by simp
  next
    case False
    with a have "x < real_of_int k" by simp
    then have "\<lfloor>x\<rfloor> < k" by (simp add: floor_less_iff)
    with roundHalfEven_floor(2) [of x] show ?thesis by simp
  qed
qed

lemma roundHalfEven_mono: "x \<le> y \<Longrightarrow> roundHalfEven x \<le> roundHalfEven y"
proof -
  assume xy: "x \<le> y"
  have fl: "\<lfloor>x\<rfloor> \<le> \<lfloor>y\<rfloor>" using xy by (rule floor_mono)
  show ?thesis
  proof (cases "\<lfloor>x\<rfloor> = \<lfloor>y\<rfloor>")
    case True
    with xy show ?thesis
      by (auto simp: roundHalfEven_def Let_def)
  next
    case False
    with fl have "\<lfloor>x\<rfloor> + 1 \<le> \<lfloor>y\<rfloor>" by simp
    with roundHalfEven_floor(2) [of x] roundHalfEven_floor(1) [of y] show ?thesis by linarith
  qed
qed

text \<open>The significand of a positive value lies between \<open>2 ^ 52\<close> and \<open>2 ^ 53\<close>.\<close>

lemma f64_pos_eq: "0 < x \<Longrightarrow> f64 x = real_of_int (mant x) * pow2 (expo x - 52)"
  by (simp add: f64_def mant_def Let_def)

lemma pow2_split:
  "pow2 (e + 52) = pow2 e * 2 ^ 52" "pow2 (e + 53) = pow2 e * 2 ^ 53"
proof -
  have "pow2 52 = 2 ^ 52" "pow2 53 = 2 ^ 53" by (simp_all add: pow2_def)
  then show "pow2 (e + 52) = pow2 e * 2 ^ 52" "pow2 (e + 53) = pow2 e * 2 ^ 53"
    by (simp_all only: pow2_add)
qed

lemma pow2_expo_split:
  "pow2 (expo x) = pow2 (expo x - 52) * 2 ^ 52" "pow2 (expo x + 1) = pow2 (expo x - 52) * 2 ^ 53"
  using pow2_split [of "expo x - 52"] by (simp_all add: algebra_simps)

lemma scaled_bounds:
  assumes "0 < x"
  shows "2 ^ 52 \<le> x / pow2 (expo x - 52)" and "x / pow2 (expo x - 52) < 2 ^ 53"
proof -
  note e = pow2_expo_split(1) [of x] and e1 = pow2_expo_split(2) [of x]
  from expo_lower [OF assms] e show "2 ^ 52 \<le> x / pow2 (expo x - 52)"
    by (simp add: le_divide_eq mult.commute)
  from expo_upper [OF assms] e1 show "x / pow2 (expo x - 52) < 2 ^ 53"
    by (simp add: divide_less_eq mult.commute)
qed

lemma mant_bounds:
  assumes "0 < x"
  shows "2 ^ 52 \<le> mant x" and "mant x \<le> 2 ^ 53"
proof -
  have "real_of_int (2 ^ 52) \<le> x / pow2 (expo x - 52)"
    using scaled_bounds(1) [OF assms] by simp
  then show "2 ^ 52 \<le> mant x"
    unfolding mant_def by (rule roundHalfEven_ge)
  have "x / pow2 (expo x - 52) \<le> real_of_int (2 ^ 53)"
    using scaled_bounds(2) [OF assms] by simp
  then show "mant x \<le> 2 ^ 53"
    unfolding mant_def by (rule roundHalfEven_le)
qed

lemma f64_zero [simp]: "f64 0 = 0"
  by (simp add: f64_def)

lemma f64_minus: "f64 (- x) = - f64 x"
  by (simp add: f64_def Let_def sgn_minus)

lemma f64_pos: "0 < x \<Longrightarrow> 0 < f64 x"
  using mant_bounds(1) [of x] by (simp add: f64_pos_eq zero_less_mult_iff)

lemma f64_neg: "x < 0 \<Longrightarrow> f64 x < 0"
  using f64_pos [of "- x"] by (simp add: f64_minus)

lemma f64_eq_0_iff [simp]: "f64 x = 0 \<longleftrightarrow> x = 0"
proof (cases "x = 0")
  case True
  then show ?thesis by simp
next
  case False
  then consider "0 < x" | "x < 0" by linarith
  then show ?thesis
  proof cases
    case 1
    with f64_pos [OF 1] show ?thesis by simp
  next
    case 2
    with f64_neg [OF 2] show ?thesis by simp
  qed
qed

lemma f64_pos_iff [simp]: "0 < f64 x \<longleftrightarrow> 0 < x"
proof (cases "0 < x")
  case True
  with f64_pos [OF True] show ?thesis by simp
next
  case False
  show ?thesis
  proof (cases "x = 0")
    case True
    then show ?thesis by simp
  next
    case False
    with \<open>\<not> 0 < x\<close> have n: "x < 0" by simp
    with f64_neg [OF n] show ?thesis by simp
  qed
qed

lemma f64_neg_iff [simp]: "f64 x < 0 \<longleftrightarrow> x < 0"
  using f64_pos_iff [of "- x"] by (simp add: f64_minus)

text \<open>The rounded value stays in the closed binade of the value.\<close>

lemma f64_binade:
  assumes "0 < x"
  shows "pow2 (expo x) \<le> f64 x" and "f64 x \<le> pow2 (expo x + 1)"
proof -
  have e: "pow2 (expo x) = 2 ^ 52 * pow2 (expo x - 52)"
    and e1: "pow2 (expo x + 1) = 2 ^ 53 * pow2 (expo x - 52)"
    using pow2_expo_split [of x] by (simp_all add: mult.commute)
  have "(2::real) ^ 52 \<le> real_of_int (mant x)"
    using mant_bounds(1) [OF assms] by (rule real_pow2_le)
  then show "pow2 (expo x) \<le> f64 x"
    by (simp add: e f64_pos_eq [OF assms])
  have "real_of_int (mant x) \<le> (2::real) ^ 53"
    using mant_bounds(2) [OF assms] by (rule real_le_pow2)
  then show "f64 x \<le> pow2 (expo x + 1)"
    by (simp add: e1 f64_pos_eq [OF assms])
qed


text \<open>A value with a 53-bit mantissa is not changed.\<close>

lemma f64_repr:
  assumes "2 ^ 52 \<le> m" and "m < 2 ^ 53"
  shows "f64 (real_of_int m * pow2 k) = real_of_int m * pow2 k"
proof -
  let ?x = "real_of_int m * pow2 k"
  have m0: "0 < real_of_int m" using assms(1) by simp
  then have x0: "0 < ?x" by (simp add: zero_less_mult_iff)
  have lo: "(2::real) ^ 52 \<le> real_of_int m" using assms(1) by (rule real_pow2_le)
  have "m + 1 \<le> 2 ^ 53" using assms(2) by simp
  then have "real_of_int (m + 1) \<le> (2::real) ^ 53" by (rule real_le_pow2)
  then have hi: "real_of_int m < (2::real) ^ 53" by simp
  have "pow2 (k + 52) \<le> ?x"
    using lo by (simp add: pow2_split mult.commute)
  moreover have "?x < pow2 (k + 52 + 1)"
    using hi pow2_split(2) [of k] by (simp add: mult.commute add.assoc)
  ultimately have e: "expo ?x = k + 52"
    using x0 by (intro expo_unique)
  have "mant ?x = m"
    by (simp add: mant_def e)
  then show ?thesis
    by (simp add: f64_pos_eq [OF x0] e)
qed

lemma f64_idem_pos:
  assumes "0 < x"
  shows "f64 (f64 x) = f64 x"
proof (cases "mant x < 2 ^ 53")
  case True
  from f64_repr [OF mant_bounds(1) [OF assms] True, of "expo x - 52"]
  show ?thesis by (simp add: f64_pos_eq [OF assms])
next
  case False
  with mant_bounds(2) [OF assms] have m: "mant x = 2 ^ 53" by simp
  have "pow2 1 = 2" by (simp add: pow2_def)
  then have "pow2 (expo x - 52 + 1) = pow2 (expo x - 52) * 2"
    by (simp only: pow2_add)
  then have v: "f64 x = real_of_int (2 ^ 52) * pow2 (expo x - 52 + 1)"
    by (simp add: f64_pos_eq [OF assms] m)
  have "f64 (real_of_int (2 ^ 52) * pow2 (expo x - 52 + 1)) = real_of_int (2 ^ 52) * pow2 (expo x - 52 + 1)"
    by (rule f64_repr) simp_all
  with v show ?thesis by simp
qed

lemma f64_idem [simp]: "f64 (f64 x) = f64 x"
proof (cases "x = 0")
  case True
  then show ?thesis by simp
next
  case False
  then consider "0 < x" | "x < 0" by linarith
  then show ?thesis
  proof cases
    case 1
    then show ?thesis by (rule f64_idem_pos)
  next
    case 2
    then have "f64 (f64 (- x)) = f64 (- x)" by (intro f64_idem_pos) simp
    then show ?thesis by (simp add: f64_minus)
  qed
qed

lemma expo_mono:
  assumes "0 < x" and "x \<le> y"
  shows "expo x \<le> expo y"
proof (rule ccontr)
  assume "\<not> expo x \<le> expo y"
  then have "expo y + 1 \<le> expo x" by simp
  then have "pow2 (expo y + 1) \<le> pow2 (expo x)" by (rule pow2_mono)
  moreover have "0 < y" using assms by simp
  ultimately show False
    using expo_lower [OF assms(1)] expo_upper [of y] assms(2) by linarith
qed

lemma f64_mono_pos:
  assumes "0 < x" and "x \<le> y"
  shows "f64 x \<le> f64 y"
proof -
  have y0: "0 < y" using assms by simp
  show ?thesis
  proof (cases "expo x = expo y")
    case True
    have "x / pow2 (expo y - 52) \<le> y / pow2 (expo y - 52)"
      using assms(2) by (intro divide_right_mono) simp_all
    then have "mant x \<le> mant y"
      unfolding mant_def True by (rule roundHalfEven_mono)
    then show ?thesis
      by (simp add: f64_pos_eq [OF assms(1)] f64_pos_eq [OF y0] True)
  next
    case False
    with expo_mono [OF assms] have "expo x + 1 \<le> expo y" by simp
    then have "pow2 (expo x + 1) \<le> pow2 (expo y)" by (rule pow2_mono)
    with f64_binade(2) [OF assms(1)] f64_binade(1) [OF y0] show ?thesis by linarith
  qed
qed

lemma f64_mono: "x \<le> y \<Longrightarrow> f64 x \<le> f64 y"
proof -
  assume xy: "x \<le> y"
  consider "0 < x" | "x \<le> 0" "0 \<le> y" | "y < 0" by linarith
  then show ?thesis
  proof cases
    case 1
    then show ?thesis using xy by (rule f64_mono_pos)
  next
    case 2
    have "f64 x \<le> 0" using 2(1) f64_pos_iff [of x] by linarith
    moreover have "0 \<le> f64 y" using 2(2) f64_neg_iff [of y] by linarith
    ultimately show ?thesis by simp
  next
    case 3
    then have "f64 (- y) \<le> f64 (- x)" using xy by (intro f64_mono_pos) simp_all
    then show ?thesis by (simp add: f64_minus)
  qed
qed

text \<open>
  Comparing a value of \<^verbatim>\<open>float64\<close> with a constant that is not above its rounding is
  comparing it with the rounded constant.
\<close>

lemma f64_ge_const: "c \<le> f64 c \<Longrightarrow> (f64 c \<le> f64 x) = (c \<le> f64 x)"
  using f64_mono [of c "f64 x"] by auto

text \<open>The facts that evaluate \<open>f64\<close> on a rational.\<close>

lemmas f64_eval = f64_def expo_def pow2_def roundHalfEven_def Let_def compute_bitlen

subsection \<open>The window fallback\<close>

text \<open>
  When no candidate of the sequence reaches three matches, the loop ends with the series
  of the last candidate, and the variable \<^verbatim>\<open>actualWindow\<close> still holds its initial value.
\<close>

lemma windowLoop_fallthrough:
  assumes "\<forall>w \<in> set ws. length (filterByCutoff (calculateCutoffDate c (timeNow c) w) hist) < 3"
    and "ws \<noteq> []"
  shows "windowLoop c hist ws (fs, aw)
           = (filterByCutoff (calculateCutoffDate c (timeNow c) (last ws)) hist, aw)"
  using assms
proof (induction ws arbitrary: fs)
  case Nil
  then show ?case by simp
next
  case (Cons w ws)
  show ?case
  proof (cases "ws = []")
    case True
    with Cons.prems show ?thesis by (simp add: Let_def)
  next
    case False
    with Cons.prems Cons.IH show ?thesis by (simp add: Let_def)
  qed
qed

lemma windowLoop_first_hit:
  assumes "\<forall>v \<in> set pre. length (filterByCutoff (calculateCutoffDate c (timeNow c) v) hist) < 3"
    and "3 \<le> length (filterByCutoff (calculateCutoffDate c (timeNow c) w) hist)"
  shows "windowLoop c hist (pre @ w # post) (fs, aw)
           = (filterByCutoff (calculateCutoffDate c (timeNow c) w) hist, w)"
  using assms
  by (induction pre arbitrary: fs) (simp_all add: Let_def)

lemma filterByCutoff_subset: "set (filterByCutoff t hist) \<subseteq> set hist"
  by (auto simp: filterByCutoff_def)

lemma windowLoop_subset:
  "set fs \<subseteq> set hist \<Longrightarrow> set (fst (windowLoop c hist ws (fs, aw))) \<subseteq> set hist"
proof (induction ws arbitrary: fs)
  case Nil
  then show ?case by simp
next
  case (Cons w ws)
  from Cons.IH [OF filterByCutoff_subset] filterByCutoff_subset
  show ?case by (simp add: Let_def)
qed

lemma resolveWindow_Nil: "fst (resolveWindow c w []) = []"
  using windowLoop_subset [of "[]" "[]" c "getWindowFallbackSequence w" w]
  by (simp add: resolveWindow_def)

lemma getWindowFallbackSequence_nonempty: "getWindowFallbackSequence w \<noteq> []"
  by (simp add: getWindowFallbackSequence_def)

text \<open>The same for the resolver: the series of the widest candidate, under the requested window.\<close>

lemma resolveWindow_fallthrough:
  assumes "\<forall>v \<in> set (getWindowFallbackSequence w).
             length (filterByCutoff (calculateCutoffDate c (timeNow c) v) hist) < 3"
  shows "resolveWindow c w hist
           = (filterByCutoff (calculateCutoffDate c (timeNow c) (last (getWindowFallbackSequence w))) hist, w)"
  unfolding resolveWindow_def
  by (rule windowLoop_fallthrough [OF assms getWindowFallbackSequence_nonempty])

text \<open>
  The window returned is the requested one or a candidate of its sequence; for the five
  windows of the model it is a member of the sequence of the requested window.
\<close>

lemma windowLoop_window_member:
  "snd (windowLoop c hist ws (fs, aw)) \<in> insert aw (set ws)"
proof (induction ws arbitrary: fs)
  case Nil
  show ?case by simp
next
  case (Cons v ws)
  from Cons.IH [of "filterByCutoff (calculateCutoffDate c (timeNow c) v) hist"]
  show ?case by (auto simp: Let_def)
qed

lemma requested_heads_sequence:
  assumes "w \<in> {LastWeek, LastMonth, Last3Months, Last6Months, LastYear}"
  shows "hd (getWindowFallbackSequence w) = w"
  using assms by (auto simp: getWindowFallbackSequence_def)

lemma resolveWindow_member:
  assumes "w \<in> {LastWeek, LastMonth, Last3Months, Last6Months, LastYear}"
  shows "snd (resolveWindow c w hist) \<in> set (getWindowFallbackSequence w)"
proof -
  have "w \<in> set (getWindowFallbackSequence w)"
    using requested_heads_sequence [OF assms] getWindowFallbackSequence_nonempty [of w]
    by (metis list.set_sel(1))
  with windowLoop_window_member [of c hist "getWindowFallbackSequence w" "[]" w]
  show ?thesis
    by (auto simp: resolveWindow_def)
qed

text \<open>
  C1. The resolver filters for each candidate of the fallback sequence in order and stops at
  the first one with at least three matches (\<open>windowLoop_first_hit\<close>). When no candidate
  has three, the series kept are those of the widest candidate, but the window returned
  and stored as \<^verbatim>\<open>ActualTimeWindow\<close> is the requested one, not the widest
  (\<open>resolveWindow_fallthrough\<close>). Here LAST_WEEK is requested and the only series is sixty
  days old: it lies outside the last week and inside the last three months, it is the
  series the statistics are computed from, and the window reported is LAST_WEEK.
\<close>

theorem resolveWindow_keeps_requested_window:
  "resolveWindow oldSeriesClient LastWeek [exampleSeries ''s1'' 940 True]
     = ([exampleSeries ''s1'' 940 True], LastWeek)
   \<and> filterByCutoff (calculateCutoffDate oldSeriesClient (timeNow oldSeriesClient) LastWeek)
        [exampleSeries ''s1'' 940 True] = []
   \<and> filterByCutoff (calculateCutoffDate oldSeriesClient (timeNow oldSeriesClient) Last3Months)
        [exampleSeries ''s1'' 940 True] = [exampleSeries ''s1'' 940 True]
   \<and> last (getWindowFallbackSequence LastWeek) = Last3Months
   \<and> GetTeamStatistics oldSeriesClient ''alpha'' ''valorant'' LastWeek [] =
       Inr \<lparr>TeamStats.WinRate = 1, KDRatio = 3 / 2, MatchesPlayed = 1, Kills = 30, Deaths = 20,
            Assists = 0, KillsAvg = 10, DeathsAvg = 20 / 3, AssistsAvg = 0,
            CurrentStreak = \<lparr>Streak.Type = ''win'', Count = 1\<rparr>, SampleSize = 1,
            Confidence = zeroConfidence, ActualTimeWindow = ''LAST_WEEK''\<rparr>"
  by (simp add: example_defs GetTeamStatistics_eval TimeWindow_defs)

subsection \<open>The detail loop and the aggregation\<close>

lemma detailStep_cases:
  "detailStep c t acc s =
     (case detailOf c t s of
        None \<Rightarrow> acc
      | Some stats \<Rightarrow>
          \<lparr>totalKills = totalKills acc + SeriesStats.Kills stats,
           totalDeaths = totalDeaths acc + SeriesStats.Deaths stats,
           totalGames = totalGames acc + GamesPlayed stats,
           successfulDownloads = successfulDownloads acc + 1\<rparr>)"
  by (simp add: detailStep_def detailOf_def split: sum.splits)

text \<open>The loop adds up the entries of the detail-successful subset, and counts them.\<close>

lemma foldl_detailStep:
  "foldl (detailStep c t) acc xs =
     \<lparr>totalKills = totalKills acc + sum_list (map SeriesStats.Kills (List.map_filter (detailOf c t) xs)),
      totalDeaths = totalDeaths acc + sum_list (map SeriesStats.Deaths (List.map_filter (detailOf c t) xs)),
      totalGames = totalGames acc + sum_list (map GamesPlayed (List.map_filter (detailOf c t) xs)),
      successfulDownloads = successfulDownloads acc + int (length (List.map_filter (detailOf c t) xs))\<rparr>"
proof (induction xs arbitrary: acc)
  case Nil
  show ?case by simp
next
  case (Cons x xs)
  show ?case
  proof (cases "detailOf c t x")
    case None
    then have "detailStep c t acc x = acc"
      by (simp add: detailStep_cases)
    with None show ?thesis
      by (simp add: Cons.IH)
  next
    case (Some stats)
    then have "detailStep c t acc x =
        \<lparr>totalKills = totalKills acc + SeriesStats.Kills stats,
         totalDeaths = totalDeaths acc + SeriesStats.Deaths stats,
         totalGames = totalGames acc + GamesPlayed stats,
         successfulDownloads = successfulDownloads acc + 1\<rparr>"
      by (simp add: detailStep_cases)
    with Some show ?thesis
      by (simp add: Cons.IH)
  qed
qed

lemma fetchDetails_sums:
  "totalKills (fetchDetails c t fs) = sum_list (map SeriesStats.Kills (detailSubset c t fs))"
  "totalDeaths (fetchDetails c t fs) = sum_list (map SeriesStats.Deaths (detailSubset c t fs))"
  "totalGames (fetchDetails c t fs) = sum_list (map GamesPlayed (detailSubset c t fs))"
  "successfulDownloads (fetchDetails c t fs) = int (length (detailSubset c t fs))"
  by (simp_all add: fetchDetails_def detailSubset_def foldl_detailStep noDetails_def)

lemma length_map_filter_le: "length (List.map_filter f xs) \<le> length xs"
  by (induction xs) (simp_all split: option.splits)

lemma length_detailSubset: "length (detailSubset c t fs) \<le> min 10 (length fs)"
  using length_map_filter_le [of "detailOf c t" "take 10 fs"]
  by (simp add: detailSubset_def)

lemma aggregateStats_Inr:
  assumes "aggregateStats c t fs aw = Inr st"
  shows "TeamStats.WinRate st = real_of_int (totalWinsOf fs) / real (length fs)"
    and "TeamStats.KillsAvg st
           = real_of_int (totalKills (fetchDetails c t fs)) / real_of_int (totalGames (fetchDetails c t fs))"
    and "TeamStats.DeathsAvg st
           = real_of_int (totalDeaths (fetchDetails c t fs)) / real_of_int (totalGames (fetchDetails c t fs))"
    and "TeamStats.KDRatio st
           = real_of_int (totalKills (fetchDetails c t fs)) / real_of_int (totalDeaths (fetchDetails c t fs))"
    and "successfulDownloads (fetchDetails c t fs) \<noteq> 0"
    and "ActualTimeWindow st = aw"
    and "MatchesPlayed st = int (length fs)"
  using assms by (auto simp: aggregateStats_def Let_def split: if_splits)

text \<open>With a non-empty filtered list, the result is that of steps 3 and 4.\<close>

lemma GetTeamStatistics_stages:
  assumes "autoSelectTournaments c title tids = Inr tids'"
    and "GetTeamSeriesHistory c team 50 tids' = Inr hist"
    and "resolveWindow c w hist = (fs, aw)"
    and "fs \<noteq> []"
  shows "GetTeamStatistics c team title w tids = aggregateStats c team fs aw"
proof -
  have "hist \<noteq> []"
    using assms(3,4) resolveWindow_Nil [of c w] by auto
  with assms show ?thesis
    by (simp add: GetTeamStatistics_def)
qed

lemma GetTeamStatistics_Inr_filtered:
  assumes "GetTeamStatistics c team title w tids = Inr st"
    and "autoSelectTournaments c title tids = Inr tids'"
    and "GetTeamSeriesHistory c team 50 tids' = Inr hist"
    and "resolveWindow c w hist = (fs, aw)"
  shows "aggregateStats c team fs aw = Inr st"
  using assms by (auto simp: GetTeamStatistics_def split: if_splits)

text \<open>
  C2. For every successful aggregation the win rate is the number of wins among all
  filtered series over the number of all filtered series. The kill and death figures come
  only from the detail-successful subset among the first ten filtered series: the averages
  divide the subset's kills and deaths by the subset's games played, the K/D ratio divides
  its kills by its deaths. The subset has at least one and at most ten series and never
  more than the filtered list.
\<close>

theorem dual_denominators:
  assumes "autoSelectTournaments c title tids = Inr tids'"
    and "GetTeamSeriesHistory c team 50 tids' = Inr hist"
    and "resolveWindow c w hist = (fs, aw)"
    and "GetTeamStatistics c team title w tids = Inr st"
  shows "TeamStats.WinRate st = real (length (filter SeriesData.Won fs)) / real (length fs)
       \<and> TeamStats.KillsAvg st
            = real_of_int (sum_list (map SeriesStats.Kills (detailSubset c team fs)))
                / real_of_int (sum_list (map GamesPlayed (detailSubset c team fs)))
       \<and> TeamStats.DeathsAvg st
            = real_of_int (sum_list (map SeriesStats.Deaths (detailSubset c team fs)))
                / real_of_int (sum_list (map GamesPlayed (detailSubset c team fs)))
       \<and> TeamStats.KDRatio st
            = real_of_int (sum_list (map SeriesStats.Kills (detailSubset c team fs)))
                / real_of_int (sum_list (map SeriesStats.Deaths (detailSubset c team fs)))
       \<and> 0 < length (detailSubset c team fs)
       \<and> length (detailSubset c team fs) \<le> 10
       \<and> length (detailSubset c team fs) \<le> length fs"
proof -
  have agg: "aggregateStats c team fs aw = Inr st"
    by (rule GetTeamStatistics_Inr_filtered [OF assms(4) assms(1) assms(2) assms(3)])
  note A = aggregateStats_Inr [OF agg]
  have "0 < length (detailSubset c team fs)"
    using A(5) by (simp add: fetchDetails_sums)
  moreover have "length (detailSubset c team fs) \<le> 10"
    and "length (detailSubset c team fs) \<le> length fs"
    using length_detailSubset [of c team fs] by simp_all
  ultimately show ?thesis
    using A(1-4) by (simp add: fetchDetails_sums totalWinsOf_def)
qed

lemma valorant_tournaments:
  "autoSelectTournaments (exampleClient hist details) ''valorant'' [] =
     Inr [''757371'', ''757481'', ''774782'', ''775516'', ''800675'', ''826660'']"
  by (simp add: autoSelectTournaments_def asciiToLower_def asciiLowerChar_def exampleClient_def)

lemma mixed_tournaments:
  "autoSelectTournaments mixedClient ''valorant'' [] =
     Inr [''757371'', ''757481'', ''774782'', ''775516'', ''800675'', ''826660'']"
  by (simp add: mixedClient_def valorant_tournaments)

lemma mixed_resolve: "resolveWindow mixedClient LastWeek mixedHistory = (mixedHistory, LastWeek)"
  by (simp add: example_defs resolveWindow_def getWindowFallbackSequence_def
      calculateCutoffDate_def filterByCutoff_def TimeWindow_defs)

lemma mixed_subset:
  "detailSubset mixedClient ''alpha'' mixedHistory
     = [exampleStats ''s1'' ''Team Alpha'' 30 20 3, exampleStats ''s4'' ''Team Alpha'' 20 20 2]"
  by (simp add: detailSubset_def detailOf_def findTeamStats_def asciiToLower_def asciiLowerChar_def
      example_defs List.map_filter_def)

lemma mixed_stats:
  "GetTeamStatistics mixedClient ''alpha'' ''valorant'' LastWeek [] =
     Inr \<lparr>TeamStats.WinRate = 3 / 4, KDRatio = 5 / 4, MatchesPlayed = 4, Kills = 50, Deaths = 40,
          Assists = 0, KillsAvg = 10, DeathsAvg = 8, AssistsAvg = 0,
          CurrentStreak = \<lparr>Streak.Type = ''win'', Count = 1\<rparr>, SampleSize = 4,
          Confidence = zeroConfidence, ActualTimeWindow = LastWeek\<rparr>"
  by (simp add: example_defs GetTeamStatistics_eval TimeWindow_defs)

text \<open>
  An instance: of four filtered series, three of them won, two yield details, with five
  games, fifty kills and forty deaths between them.
\<close>

theorem dual_denominators_witness:
  "autoSelectTournaments mixedClient ''valorant'' [] =
     Inr [''757371'', ''757481'', ''774782'', ''775516'', ''800675'', ''826660'']
   \<and> GetTeamSeriesHistory mixedClient ''alpha'' 50
        [''757371'', ''757481'', ''774782'', ''775516'', ''800675'', ''826660''] = Inr mixedHistory
   \<and> resolveWindow mixedClient LastWeek mixedHistory = (mixedHistory, LastWeek)
   \<and> GetTeamStatistics mixedClient ''alpha'' ''valorant'' LastWeek [] =
       Inr \<lparr>TeamStats.WinRate = 3 / 4, KDRatio = 5 / 4, MatchesPlayed = 4, Kills = 50, Deaths = 40,
            Assists = 0, KillsAvg = 10, DeathsAvg = 8, AssistsAvg = 0,
            CurrentStreak = \<lparr>Streak.Type = ''win'', Count = 1\<rparr>, SampleSize = 4,
            Confidence = zeroConfidence, ActualTimeWindow = LastWeek\<rparr>
   \<and> real (length (filter SeriesData.Won mixedHistory)) / real (length mixedHistory) = 3 / 4
   \<and> real_of_int (sum_list (map SeriesStats.Kills (detailSubset mixedClient ''alpha'' mixedHistory)))
        / real_of_int (sum_list (map GamesPlayed (detailSubset mixedClient ''alpha'' mixedHistory))) = 10
   \<and> length (detailSubset mixedClient ''alpha'' mixedHistory) = 2
   \<and> length (detailSubset mixedClient ''alpha'' mixedHistory) \<le> length mixedHistory"
proof -
  have h: "GetTeamSeriesHistory mixedClient ''alpha'' 50
        [''757371'', ''757481'', ''774782'', ''775516'', ''800675'', ''826660''] = Inr mixedHistory"
    by (simp add: example_defs)
  have l: "length (detailSubset mixedClient ''alpha'' mixedHistory) = 2"
    by (simp add: mixed_subset)
  from dual_denominators [OF mixed_tournaments h mixed_resolve mixed_stats]
    mixed_tournaments h mixed_resolve mixed_stats l
  show ?thesis
    by simp
qed

text \<open>
  The divisor of the kill average is the number of games, not of series: one filtered
  series of three games gives a win rate over 1 and a kill average over 3.
\<close>

theorem kills_average_divides_by_games:
  "GetTeamStatistics oldSeriesClient ''alpha'' ''valorant'' Last3Months [] =
       Inr \<lparr>TeamStats.WinRate = 1 / 1, KDRatio = 30 / 20, MatchesPlayed = 1, Kills = 30, Deaths = 20,
            Assists = 0, KillsAvg = 30 / 3, DeathsAvg = 20 / 3, AssistsAvg = 0,
            CurrentStreak = \<lparr>Streak.Type = ''win'', Count = 1\<rparr>, SampleSize = 1,
            Confidence = zeroConfidence, ActualTimeWindow = Last3Months\<rparr>
   \<and> resolveWindow oldSeriesClient Last3Months [exampleSeries ''s1'' 940 True]
        = ([exampleSeries ''s1'' 940 True], Last3Months)
   \<and> totalGames (fetchDetails oldSeriesClient ''alpha'' [exampleSeries ''s1'' 940 True]) = 3
   \<and> totalDeaths (fetchDetails oldSeriesClient ''alpha'' [exampleSeries ''s1'' 940 True]) = 20
   \<and> int (length [exampleSeries ''s1'' 940 True])
        < totalGames (fetchDetails oldSeriesClient ''alpha'' [exampleSeries ''s1'' 940 True])"
  by (simp add: example_defs GetTeamStatistics_eval TimeWindow_defs)

text \<open>
  When no series yields details, steps 3 and 4 fail with the untyped error of the first
  test; no error they return is an \<^verbatim>\<open>InsufficientDataError\<close>.
\<close>

lemma aggregateStats_no_details:
  assumes "successfulDownloads (fetchDetails c team fs) = 0"
  shows "aggregateStats c team fs aw =
     Inl (ErrorString (''no detailed stats available for team '' @ team
            @ '' - series may not be finished or data unavailable''))"
  using assms by (simp add: aggregateStats_def Let_def)

lemma aggregateStats_error_untyped:
  assumes "aggregateStats c team fs aw = Inl err"
  shows "asInsufficientDataError err = None" and "asTeamNotFoundError err = None"
  using assms by (auto simp: aggregateStats_def Let_def split: if_splits)

text \<open>
  So a run with win/loss data and an empty detail-successful subset always ends in the
  untyped error.
\<close>

lemma GetTeamStatistics_no_details:
  assumes "autoSelectTournaments c title tids = Inr tids'"
    and "GetTeamSeriesHistory c team 50 tids' = Inr hist"
    and "resolveWindow c w hist = (fs, aw)"
    and "fs \<noteq> []"
    and "detailSubset c team fs = []"
  shows "GetTeamStatistics c team title w tids =
     Inl (ErrorString (''no detailed stats available for team '' @ team
            @ '' - series may not be finished or data unavailable''))"
proof -
  have "successfulDownloads (fetchDetails c team fs) = 0"
    by (simp add: fetchDetails_sums assms(5))
  from aggregateStats_no_details [OF this] GetTeamStatistics_stages [OF assms(1-4)]
  show ?thesis by simp
qed

text \<open>
  C5. The only recent series of the team has no details. \<^verbatim>\<open>GetTeamStatistics\<close> fails with
  an error made by \<^verbatim>\<open>fmt.Errorf\<close>; \<^verbatim>\<open>CompareTeams\<close> wraps it; at the handler
  \<^verbatim>\<open>errors.As\<close> finds neither of the two error types in the chain.
\<close>

theorem no_details_error_is_untyped:
  "GetTeamStatistics noDetailClient ''alpha'' ''valorant'' LastWeek [] =
     Inl (ErrorString
       ''no detailed stats available for team alpha - series may not be finished or data unavailable'')
   \<and> CompareTeams noDetailClient ''alpha'' ''beta'' ''valorant'' LastWeek [] =
     Inl (WrapError ''failed to fetch stats for alpha: ''
       (ErrorString
         ''no detailed stats available for team alpha - series may not be finished or data unavailable''))
   \<and> asInsufficientDataError (WrapError ''failed to fetch stats for alpha: ''
       (ErrorString
         ''no detailed stats available for team alpha - series may not be finished or data unavailable''))
       = None
   \<and> asTeamNotFoundError (WrapError ''failed to fetch stats for alpha: ''
       (ErrorString
         ''no detailed stats available for team alpha - series may not be finished or data unavailable''))
       = None"
  by (simp add: CompareTeams_def example_defs GetTeamStatistics_eval TimeWindow_defs)

text \<open>
  C10. Win/loss data exists (the filtered list is not empty) and at least one series yields
  details, but the games or the deaths of the detail-successful subset add up to zero:
  \<^verbatim>\<open>GetTeamStatistics\<close> returns an error and no statistics.
\<close>

theorem zero_games_or_deaths_is_error:
  assumes "autoSelectTournaments c title tids = Inr tids'"
    and "GetTeamSeriesHistory c team 50 tids' = Inr hist"
    and "resolveWindow c w hist = (fs, aw)"
    and "fs \<noteq> []"
    and "detailSubset c team fs \<noteq> []"
    and "sum_list (map GamesPlayed (detailSubset c team fs)) = 0
         \<or> sum_list (map SeriesStats.Deaths (detailSubset c team fs)) = 0"
  shows "GetTeamStatistics c team title w tids
           = Inl (ErrorString (''insufficient detailed statistics available for team '' @ team))"
proof -
  have "successfulDownloads (fetchDetails c team fs) \<noteq> 0"
    using assms(5) by (simp add: fetchDetails_sums)
  moreover have "\<not> (0 < totalGames (fetchDetails c team fs) \<and> 0 < totalDeaths (fetchDetails c team fs))"
    using assms(6) by (auto simp: fetchDetails_sums)
  ultimately have "aggregateStats c team fs aw
           = Inl (ErrorString (''insufficient detailed statistics available for team '' @ team))"
    by (simp add: aggregateStats_def Let_def)
  with GetTeamStatistics_stages [OF assms(1-4)] show ?thesis
    by simp
qed

lemma zeroDeaths_subset:
  "detailSubset zeroDeathsClient ''alpha'' [exampleSeries ''s1'' 998 True]
     = [exampleStats ''s1'' ''Team Alpha'' 10 0 2]"
  by (simp add: detailSubset_def detailOf_def findTeamStats_def asciiToLower_def asciiLowerChar_def
      example_defs List.map_filter_def)

lemma zeroDeaths_resolve:
  "resolveWindow zeroDeathsClient LastWeek [exampleSeries ''s1'' 998 True]
     = ([exampleSeries ''s1'' 998 True], LastWeek)"
  by (simp add: example_defs resolveWindow_def getWindowFallbackSequence_def
      calculateCutoffDate_def filterByCutoff_def TimeWindow_defs)

theorem zero_games_or_deaths_is_error_witness:
  "autoSelectTournaments zeroDeathsClient ''valorant'' [] =
     Inr [''757371'', ''757481'', ''774782'', ''775516'', ''800675'', ''826660'']
   \<and> GetTeamSeriesHistory zeroDeathsClient ''alpha'' 50
        [''757371'', ''757481'', ''774782'', ''775516'', ''800675'', ''826660'']
        = Inr [exampleSeries ''s1'' 998 True]
   \<and> resolveWindow zeroDeathsClient LastWeek [exampleSeries ''s1'' 998 True]
        = ([exampleSeries ''s1'' 998 True], LastWeek)
   \<and> detailSubset zeroDeathsClient ''alpha'' [exampleSeries ''s1'' 998 True]
        = [exampleStats ''s1'' ''Team Alpha'' 10 0 2]
   \<and> sum_list (map SeriesStats.Deaths
        (detailSubset zeroDeathsClient ''alpha'' [exampleSeries ''s1'' 998 True])) = 0
   \<and> GetTeamStatistics zeroDeathsClient ''alpha'' ''valorant'' LastWeek []
        = Inl (ErrorString ''insufficient detailed statistics available for team alpha'')"
proof -
  have t: "autoSelectTournaments zeroDeathsClient ''valorant'' [] =
     Inr [''757371'', ''757481'', ''774782'', ''775516'', ''800675'', ''826660'']"
    by (simp add: zeroDeathsClient_def valorant_tournaments)
  have h: "GetTeamSeriesHistory zeroDeathsClient ''alpha'' 50
        [''757371'', ''757481'', ''774782'', ''775516'', ''800675'', ''826660'']
        = Inr [exampleSeries ''s1'' 998 True]"
    by (simp add: example_defs)
  have ne: "[exampleSeries ''s1'' 998 True] \<noteq> []"
    by simp
  have sub: "detailSubset zeroDeathsClient ''alpha'' [exampleSeries ''s1'' 998 True] \<noteq> []"
    by (simp add: zeroDeaths_subset)
  have z: "sum_list (map SeriesStats.Deaths
        (detailSubset zeroDeathsClient ''alpha'' [exampleSeries ''s1'' 998 True])) = 0"
    by (simp add: zeroDeaths_subset exampleStats_def)
  from zero_games_or_deaths_is_error [OF t h zeroDeaths_resolve ne sub disjI2 [OF z]]
    t h zeroDeaths_resolve zeroDeaths_subset z
  show ?thesis
    by simp
qed

subsection \<open>The confidence scorer\<close>

text \<open>
  C6. For every sample size, total and window, \<^verbatim>\<open>CalculateConfidence\<close> returns the level and
  score of the table: with a total of at least 18, a sample of at least 18 is HIGH with 95,
  of at least 7 MEDIUM with 70, below that LOW with 40; with a total below 18, a sample of
  at least 15 is HIGH with 90, of at least 5 MEDIUM with 60, below that LOW with 30. With the
  total held fixed, a larger sample never has a lower level.
\<close>

theorem CalculateConfidence_table:
  "(18 \<le> totalMatches \<and> 18 \<le> sample \<longrightarrow>
      Level (CalculateConfidence sample totalMatches w) = ''HIGH''
      \<and> ReliabilityScore (CalculateConfidence sample totalMatches w) = 95)
   \<and> (18 \<le> totalMatches \<and> 7 \<le> sample \<and> sample < 18 \<longrightarrow>
      Level (CalculateConfidence sample totalMatches w) = ''MEDIUM''
      \<and> ReliabilityScore (CalculateConfidence sample totalMatches w) = 70)
   \<and> (18 \<le> totalMatches \<and> sample < 7 \<longrightarrow>
      Level (CalculateConfidence sample totalMatches w) = ''LOW''
      \<and> ReliabilityScore (CalculateConfidence sample totalMatches w) = 40)
   \<and> (totalMatches < 18 \<and> 15 \<le> sample \<longrightarrow>
      Level (CalculateConfidence sample totalMatches w) = ''HIGH''
      \<and> ReliabilityScore (CalculateConfidence sample totalMatches w) = 90)
   \<and> (totalMatches < 18 \<and> 5 \<le> sample \<and> sample < 15 \<longrightarrow>
      Level (CalculateConfidence sample totalMatches w) = ''MEDIUM''
      \<and> ReliabilityScore (CalculateConfidence sample totalMatches w) = 60)
   \<and> (totalMatches < 18 \<and> sample < 5 \<longrightarrow>
      Level (CalculateConfidence sample totalMatches w) = ''LOW''
      \<and> ReliabilityScore (CalculateConfidence sample totalMatches w) = 30)
   \<and> (sample \<le> sample' \<longrightarrow>
      levelRank (Level (CalculateConfidence sample totalMatches w))
        \<le> levelRank (Level (CalculateConfidence sample' totalMatches w)))"
  by (simp add: CalculateConfidence_def confidenceThresholds_def levelRank_def ConfidenceLevel_defs)

theorem CalculateConfidence_table_witness:
  "(18::int) \<le> 20 \<and> (7::int) \<le> 10 \<and> (10::int) < 18 \<and> (10::int) \<le> 18
   \<and> Level (CalculateConfidence 10 20 LastMonth) = ''MEDIUM''
   \<and> ReliabilityScore (CalculateConfidence 10 20 LastMonth) = 70
   \<and> levelRank (Level (CalculateConfidence 10 20 LastMonth))
        \<le> levelRank (Level (CalculateConfidence 18 20 LastMonth))"
  using CalculateConfidence_table [of 20 10 LastMonth 18]
  by auto

subsection \<open>The comparison warnings\<close>

text \<open>No other warning can be mistaken for the disparity warning, whatever the team name.\<close>

lemma disparity_ne_lowSample [simp]: "disparityWarning \<noteq> lowSampleWarning n c"
proof -
  have "last (lowSampleWarning n c) \<noteq> last disparityWarning"
    by (simp add: lowSampleWarning_def disparityWarning_def)
  then show ?thesis by metis
qed

lemma disparity_ne_insufficient [simp]: "disparityWarning \<noteq> insufficientDataWarning n"
proof -
  have "last (insufficientDataWarning n) \<noteq> last disparityWarning"
    by (simp add: insufficientDataWarning_def disparityWarning_def)
  then show ?thesis by metis
qed

lemma disparity_ne_mismatch [simp]: "disparityWarning \<noteq> mismatchWarning"
  by (simp add: mismatchWarning_def disparityWarning_def)

text \<open>
  C9. For every pair of confidences with both sample sizes positive, the warnings include
  the disparity warning exactly when the quotient of the first sample size by the second
  exceeds 3 or lies below 0.33, the constant of the source.
\<close>

theorem disparity_warning_iff:
  assumes "0 < Confidence.SampleSize c1" and "0 < Confidence.SampleSize c2"
  shows "disparityWarning \<in> set (GenerateWarnings n1 c1 n2 c2) \<longleftrightarrow>
           (3 < real_of_int (Confidence.SampleSize c1) / real_of_int (Confidence.SampleSize c2)
            \<or> real_of_int (Confidence.SampleSize c1) / real_of_int (Confidence.SampleSize c2) < 33 / 100)"
  using assms
  by (simp add: GenerateWarnings_def sampleDisparity_def Let_def)

text \<open>An instance: 40 matches against 10, a quotient of 4.\<close>

theorem disparity_warning_iff_witness:
  "0 < Confidence.SampleSize (CalculateConfidence 40 40 LastYear)
   \<and> 0 < Confidence.SampleSize (CalculateConfidence 10 10 LastYear)
   \<and> 3 < real_of_int (Confidence.SampleSize (CalculateConfidence 40 40 LastYear))
            / real_of_int (Confidence.SampleSize (CalculateConfidence 10 10 LastYear))
   \<and> disparityWarning \<in> set (GenerateWarnings ''Team Alpha'' (CalculateConfidence 40 40 LastYear)
                                   ''Team Beta'' (CalculateConfidence 10 10 LastYear))"
proof -
  have p1: "0 < Confidence.SampleSize (CalculateConfidence 40 40 LastYear)"
    and p2: "0 < Confidence.SampleSize (CalculateConfidence 10 10 LastYear)"
    by (simp_all add: CalculateConfidence_def confidenceThresholds_def)
  have r: "3 < real_of_int (Confidence.SampleSize (CalculateConfidence 40 40 LastYear))
            / real_of_int (Confidence.SampleSize (CalculateConfidence 10 10 LastYear))"
    by (simp add: CalculateConfidence_def confidenceThresholds_def)
  from disparity_warning_iff [OF p1 p2, of "''Team Alpha''" "''Team Beta''"] p1 p2 r
  show ?thesis
    by blast
qed

text \<open>
  A quotient of 33 to 100 is below one third, and raises no warning: it is not below 0.33.
\<close>

theorem disparity_boundary_is_033:
  "GenerateWarnings ''Team Alpha'' (CalculateConfidence 33 33 LastYear)
                    ''Team Beta'' (CalculateConfidence 100 100 LastYear) = []
   \<and> Confidence.SampleSize (CalculateConfidence 33 33 LastYear) = 33
   \<and> Confidence.SampleSize (CalculateConfidence 100 100 LastYear) = 100
   \<and> real_of_int 33 / real_of_int 100 < 1 / 3"
  by (simp add: GenerateWarnings_def sampleDisparity_def CalculateConfidence_def
      confidenceThresholds_def ConfidenceLevel_defs Let_def)

subsection \<open>The trend analyser\<close>

lemma playstyle_distinct [simp]:
  "AlertPositiveShift \<noteq> AlertPlaystyleChange"
  "AlertNegativeShift \<noteq> AlertPlaystyleChange"
  "AlertConsistency \<noteq> AlertPlaystyleChange"
  by (simp_all add: Alert_defs)

text \<open>With a nonzero baseline the K/D change is finite: the relative change in float64.\<close>

lemma kdChangePct_nonzero:
  assumes "PeriodStats.KDRatio overall \<noteq> 0"
  shows "kdChangePct overall recent
           = Finite (relativeChangeF64 (PeriodStats.KDRatio overall) (PeriodStats.KDRatio recent))"
  using assms by (simp add: kdChangePct_def fdiv_def relativeChangeF64_def Let_def)

text \<open>The K/D block with a nonzero baseline, in terms of that relative change.\<close>

lemma kdAlerts_nonzero_baseline:
  assumes "PeriodStats.KDRatio overall \<noteq> 0"
  shows "kdAlerts overall recent =
    (let pct = relativeChangeF64 (PeriodStats.KDRatio overall) (PeriodStats.KDRatio recent)
     in if 10 \<le> \<bar>pct\<bar> then
       [\<lparr>TrendAlert.Type = AlertPlaystyleChange,
         Severity = (if 25 \<le> \<bar>pct\<bar> then AlertHigh else if 15 \<le> \<bar>pct\<bar> then AlertMedium else AlertLow),
         Message = ''K/D ratio '' @ (if pct < 0 then ''declined'' else ''improved'')
                     @ '' by '' @ fmtF0 \<bar>pct\<bar> @ ''%'',
         Context = (if pct < 0 then ''Less efficient or more deaths recently''
                    else ''More aggressive or efficient plays'')\<rparr>]
     else [])"
  by (simp add: kdAlerts_def kdChangePct_nonzero [OF assms] determineSeverity_def Let_def)

lemma winRateAlerts_type:
  "a \<in> set (winRateAlerts overall recent) \<Longrightarrow> TrendAlert.Type a \<noteq> AlertPlaystyleChange"
  by (auto simp: winRateAlerts_def Let_def split: if_splits)

text \<open>With two recent matches or more, the PLAYSTYLE_CHANGE alerts are those of the K/D block.\<close>

lemma generateAlerts_playstyle:
  assumes "2 \<le> Matches recent"
  shows "{a \<in> set (generateAlerts overall recent). TrendAlert.Type a = AlertPlaystyleChange}
           = set (kdAlerts overall recent)"
proof -
  have kd: "a \<in> set (kdAlerts overall recent) \<Longrightarrow> TrendAlert.Type a = AlertPlaystyleChange" for a
    by (auto simp: kdAlerts_def Let_def split: if_splits)
  have c: "TrendAlert.Type consistentAlert \<noteq> AlertPlaystyleChange"
    by (simp add: consistentAlert_def)
  show ?thesis
    using assms kd c winRateAlerts_type [of _ overall recent]
    by (auto simp: generateAlerts_def Let_def)
qed

text \<open>
  The rounding decides at the thresholds. A K/D ratio that falls from 35/9 to 7/2 changes
  by 10 percent, and the computed change is -10. A fall from 1 to 9/10 is one of 10 percent
  as well, but the computed change stays above -10. A fall from 5/3 to 17/12, of 15
  percent, gives a computed change that reaches -15, and so does a win rate that falls
  from 0.4 to 0.34.
\<close>

lemma relativeChangeF64_at_thresholds:
  "relativeChangeF64 (35 / 9) (7 / 2) = - 10"
  "- 10 < relativeChangeF64 1 (9 / 10)"
  "relativeChangeF64 (5 / 3) (17 / 12) \<le> - 15"
  "relativeChangeF64 (4 / 10) (34 / 100) = - 15"
  by (simp_all add: relativeChangeF64_def f64_eval)




text \<open>A quotient of finite values is finite exactly when the divisor is not zero.\<close>

lemma fdiv_finite_iff: "isFinite (fdiv a b) \<longleftrightarrow> b \<noteq> 0"
  by (simp add: fdiv_def)

text \<open>
  C4. The relative win-rate change is the quotient by the baseline win rate, with no test
  of the baseline. With a nonzero baseline it is the finite relative change. With a
  baseline of zero the quotient is an infinity or NaN: a positive recent win rate gives a
  POSITIVE_SHIFT alert of severity HIGH, a negative one a NEGATIVE_SHIFT alert of severity
  HIGH, a recent win rate of zero no win-rate alert. In each case the alerts are returned.
\<close>

theorem winRate_change_unguarded:
  assumes "2 \<le> Matches recent"
  shows "(PeriodStats.WinRate overall \<noteq> 0 \<longrightarrow>
            winRateChangePct overall recent
              = Finite (relativeChangeF64 (PeriodStats.WinRate overall) (PeriodStats.WinRate recent)))
       \<and> (PeriodStats.WinRate overall = 0 \<and> 0 < PeriodStats.WinRate recent \<longrightarrow>
            winRateChangePct overall recent = PosInf
            \<and> generateAlerts overall recent =
                \<lparr>TrendAlert.Type = ''POSITIVE_SHIFT'', Severity = ''HIGH'',
                  Message = ''Win rate increased by +Inf% in recent matches'',
                  Context = ''Team is performing significantly better recently''\<rparr>
                # kdAlerts overall recent)
       \<and> (PeriodStats.WinRate overall = 0 \<and> PeriodStats.WinRate recent < 0 \<longrightarrow>
            winRateChangePct overall recent = NegInf
            \<and> generateAlerts overall recent =
                \<lparr>TrendAlert.Type = ''NEGATIVE_SHIFT'', Severity = ''HIGH'',
                  Message = ''Win rate decreased by +Inf% in recent matches'',
                  Context = ''Team is underperforming in recent matches''\<rparr>
                # kdAlerts overall recent)
       \<and> (PeriodStats.WinRate overall = 0 \<and> PeriodStats.WinRate recent = 0 \<longrightarrow>
            winRateChangePct overall recent = NaN
            \<and> winRateAlerts overall recent = [])"
  using assms
  by (simp add: generateAlerts_def winRateAlerts_def winRateChangePct_def fdiv_def
      relativeChangeF64_def determineSeverity_def Let_def Alert_defs)

text \<open>An instance: no win in the baseline, every recent match won.\<close>

theorem winRate_change_unguarded_witness:
  "2 \<le> Matches (evenRecent\<lparr>PeriodStats.WinRate := 1\<rparr>)
   \<and> PeriodStats.WinRate winlessBaseline = 0
   \<and> 0 < PeriodStats.WinRate (evenRecent\<lparr>PeriodStats.WinRate := 1\<rparr>)
   \<and> winRateChangePct winlessBaseline (evenRecent\<lparr>PeriodStats.WinRate := 1\<rparr>) = PosInf
   \<and> generateAlerts winlessBaseline (evenRecent\<lparr>PeriodStats.WinRate := 1\<rparr>) =
        \<lparr>TrendAlert.Type = ''POSITIVE_SHIFT'', Severity = ''HIGH'',
          Message = ''Win rate increased by +Inf% in recent matches'',
          Context = ''Team is performing significantly better recently''\<rparr>
        # kdAlerts winlessBaseline (evenRecent\<lparr>PeriodStats.WinRate := 1\<rparr>)"
proof -
  have m: "2 \<le> Matches (evenRecent\<lparr>PeriodStats.WinRate := 1\<rparr>)"
    by (simp add: evenRecent_def)
  have z: "PeriodStats.WinRate winlessBaseline = 0"
    and r: "0 < PeriodStats.WinRate (evenRecent\<lparr>PeriodStats.WinRate := 1\<rparr>)"
    by (simp_all add: winlessBaseline_def)
  from winRate_change_unguarded [OF m, of winlessBaseline] m z r show ?thesis
    by blast
qed

text \<open>
  With no win in the baseline and half of the recent matches won, the change is the
  quotient of 0.5 by zero.
\<close>

theorem winRate_division_by_zero:
  "PeriodStats.WinRate winlessBaseline = 0
   \<and> 2 \<le> Matches evenRecent
   \<and> winRateChangePct winlessBaseline evenRecent = PosInf
   \<and> \<not> isFinite (fdiv (PeriodStats.WinRate evenRecent - PeriodStats.WinRate winlessBaseline)
                      (PeriodStats.WinRate winlessBaseline))
   \<and> generateAlerts winlessBaseline evenRecent =
       [\<lparr>TrendAlert.Type = ''POSITIVE_SHIFT'', Severity = ''HIGH'',
         Message = ''Win rate increased by +Inf% in recent matches'',
         Context = ''Team is performing significantly better recently''\<rparr>]"
  by (simp add: winlessBaseline_def evenRecent_def alert_eval Alert_defs f64_eval)

subsection \<open>The comparison builder\<close>

lemma isWinRateAdvantage_simps [simp]:
  "isWinRateAdvantage (winRateMessage x)"
  "\<not> isWinRateAdvantage (kdMessage y)"
  "\<not> isWinRateAdvantage streakMessage"
  by (simp_all add: isWinRateAdvantage_def winRateMessage_def kdMessage_def streakMessage_def)

text \<open>The rounded value lies within one half of the value rounded.\<close>

lemma roundHalfEven_nearest: "\<bar>real_of_int (roundHalfEven x) - x\<bar> \<le> 1 / 2"
proof -
  have "real_of_int \<lfloor>x\<rfloor> \<le> x" and "x < real_of_int \<lfloor>x\<rfloor> + 1"
    by linarith+
  then show ?thesis
    by (auto simp: roundHalfEven_def Let_def)
qed

lemma fmtF0_nonneg: "0 \<le> x \<Longrightarrow> fmtF0 x = showNat (nat (roundHalfEven x))"
  by (simp add: fmtF0_def)

text \<open>The decimal digits that \<open>showNat\<close> writes denote the number, without a leading zero.\<close>

lemma digitValue_digitChar: "d < 10 \<Longrightarrow> digitValue (digitChar d) = Some d"
proof -
  assume "d < 10"
  then have "d \<in> {0, 1, 2, 3, 4, 5, 6, 7, 8, 9}"
    by auto
  then show ?thesis
    by (auto simp: digitValue_def digitChar_def)
qed

lemma digitChar_zero: "0 < d \<Longrightarrow> d < 10 \<Longrightarrow> digitChar d \<noteq> CHR ''0''"
proof -
  assume "0 < d" "d < 10"
  then have "d \<in> {1, 2, 3, 4, 5, 6, 7, 8, 9}"
    by auto
  then show ?thesis
    by (auto simp: digitChar_def)
qed

lemma readDigits_snoc:
  "readDigits acc (xs @ [ch]) =
     (case readDigits acc xs of
        None \<Rightarrow> None
      | Some a \<Rightarrow> (case digitValue ch of None \<Rightarrow> None | Some d \<Rightarrow> Some (10 * a + d)))"
  by (induction xs arbitrary: acc) (simp_all split: option.splits)

lemma showNat_nonempty: "showNat n \<noteq> []"
  by (subst showNat.simps) simp

lemma readDigits_showNat: "readDigits 0 (showNat n) = Some n"
proof (induction n rule: showNat.induct)
  case (1 n)
  show ?case
  proof (cases "n < 10")
    case True
    then show ?thesis
      by (subst showNat.simps) (simp add: digitValue_digitChar)
  next
    case False
    then have "readDigits 0 (showNat (n div 10)) = Some (n div 10)"
      using 1 by simp
    with False show ?thesis
      by (subst showNat.simps) (simp add: readDigits_snoc digitValue_digitChar)
  qed
qed

lemma readNat_showNat: "readNat (showNat n) = Some n"
  by (simp add: readNat_def showNat_nonempty readDigits_showNat)

lemma showNat_no_leading_zero: "0 < n \<Longrightarrow> hd (showNat n) \<noteq> CHR ''0''"
proof (induction n rule: showNat.induct)
  case (1 n)
  show ?case
  proof (cases "n < 10")
    case True
    with 1(2) show ?thesis
      by (subst showNat.simps) (simp add: digitChar_zero)
  next
    case False
    then have "hd (showNat (n div 10)) \<noteq> CHR ''0''"
      using 1 by simp
    with False show ?thesis
      by (subst showNat.simps) (simp add: showNat_nonempty)
  qed
qed

text \<open>
  The thresholds: a value of \<^verbatim>\<open>float64\<close> reaches the constant \<^verbatim>\<open>0.05\<close> of the source
  exactly when it reaches 5/100, since the constant is the least such value from 5/100 on.
\<close>

lemma f64_le_neg_const: "c \<le> f64 c \<Longrightarrow> (f64 x \<le> - f64 c) = (f64 x \<le> - c)"
  using f64_ge_const [of c "- x"] by (auto simp: f64_minus)

lemma const_005: "5 / 100 \<le> f64 (5 / 100)"
  by (simp add: f64_eval)

lemma const_01: "1 / 10 \<le> f64 (1 / 10)"
  by (simp add: f64_eval)

lemma wrDiff_thresholds:
  "f64 (5 / 100) \<le> wrDiffOf report \<longleftrightarrow> 5 / 100 \<le> wrDiffOf report"
  "wrDiffOf report \<le> - f64 (5 / 100) \<longleftrightarrow> wrDiffOf report \<le> - (5 / 100)"
  unfolding wrDiffOf_def
  by (rule f64_ge_const [OF const_005], rule f64_le_neg_const [OF const_005])

text \<open>What one call appends to each side, block by block.\<close>

lemma calculateAdvantages_Team1:
  "Advantages.Team1 (Advantages (calculateAdvantages report)) =
     Advantages.Team1 (Advantages report)
     @ (if 5 / 100 \<le> wrDiffOf report then [winRateMessage (f64 (wrDiffOf report * 100))] else [])
     @ (if f64 (1 / 10) \<le> kdDiffOf report then [kdMessage (kdDiffOf report)] else [])
     @ (if streakStronger (ComparisonStats.CurrentStreak (Stats (Team1 report)))
                          (ComparisonStats.CurrentStreak (Stats (Team2 report)))
        then [streakMessage] else [])"
proof -
  have "Advantages.Team1 (Advantages (calculateAdvantages report)) =
     Advantages.Team1 (Advantages report)
     @ (if f64 (5 / 100) \<le> wrDiffOf report then [winRateMessage (f64 (wrDiffOf report * 100))] else [])
     @ (if f64 (1 / 10) \<le> kdDiffOf report then [kdMessage (kdDiffOf report)] else [])
     @ (if streakStronger (ComparisonStats.CurrentStreak (Stats (Team1 report)))
                          (ComparisonStats.CurrentStreak (Stats (Team2 report)))
        then [streakMessage] else [])"
    by (simp add: calculateAdvantages_def Let_def addWinRateAdvantage_def addKDAdvantage_def
      addStreakAdvantage_def streakStronger_def wrDiffOf_def kdDiffOf_def)
  then show ?thesis
    by (simp only: wrDiff_thresholds)
qed

lemma calculateAdvantages_Team2:
  "Advantages.Team2 (Advantages (calculateAdvantages report)) =
     Advantages.Team2 (Advantages report)
     @ (if wrDiffOf report \<le> - (5 / 100) then [winRateMessage (f64 (- wrDiffOf report * 100))] else [])
     @ (if \<not> f64 (1 / 10) \<le> kdDiffOf report \<and> kdDiffOf report \<le> - f64 (1 / 10)
        then [kdMessage (- kdDiffOf report)] else [])
     @ (if streakStronger (ComparisonStats.CurrentStreak (Stats (Team2 report)))
                          (ComparisonStats.CurrentStreak (Stats (Team1 report)))
           \<and> \<not> streakStronger (ComparisonStats.CurrentStreak (Stats (Team1 report)))
                                (ComparisonStats.CurrentStreak (Stats (Team2 report)))
        then [streakMessage] else [])"
proof -
  have p: "0 < f64 (5 / 100)"
    by simp
  have "Advantages.Team2 (Advantages (calculateAdvantages report)) =
     Advantages.Team2 (Advantages report)
     @ (if \<not> f64 (5 / 100) \<le> wrDiffOf report \<and> wrDiffOf report \<le> - f64 (5 / 100)
        then [winRateMessage (f64 (- wrDiffOf report * 100))] else [])
     @ (if \<not> f64 (1 / 10) \<le> kdDiffOf report \<and> kdDiffOf report \<le> - f64 (1 / 10)
        then [kdMessage (- kdDiffOf report)] else [])
     @ (if streakStronger (ComparisonStats.CurrentStreak (Stats (Team2 report)))
                          (ComparisonStats.CurrentStreak (Stats (Team1 report)))
           \<and> \<not> streakStronger (ComparisonStats.CurrentStreak (Stats (Team1 report)))
                                (ComparisonStats.CurrentStreak (Stats (Team2 report)))
        then [streakMessage] else [])"
    by (simp add: calculateAdvantages_def Let_def addWinRateAdvantage_def addKDAdvantage_def
      addStreakAdvantage_def streakStronger_def wrDiffOf_def kdDiffOf_def)
  moreover have "(\<not> f64 (5 / 100) \<le> wrDiffOf report \<and> wrDiffOf report \<le> - f64 (5 / 100))
      \<longleftrightarrow> wrDiffOf report \<le> - (5 / 100)"
    using p wrDiff_thresholds [of report] by auto
  ultimately show ?thesis
    by (simp only:)
qed

lemma emitted_winRate:
  "filter isWinRateAdvantage (emittedTeam1 report)
     = (if 5 / 100 \<le> wrDiffOf report then [winRateMessage (f64 (wrDiffOf report * 100))] else [])"
  "filter isWinRateAdvantage (emittedTeam2 report)
     = (if wrDiffOf report \<le> - (5 / 100) then [winRateMessage (f64 (- wrDiffOf report * 100))] else [])"
  by (simp_all add: emittedTeam1_def emittedTeam2_def calculateAdvantages_Team1 calculateAdvantages_Team2)

text \<open>The scenario: 0.65 against 0.55.\<close>

lemma scenario_difference: "5 / 100 \<le> f64 (f64 (65 / 100) - f64 (55 / 100))"
  by (simp add: f64_eval)

lemma scenario_message:
  "winRateMessage (f64 (f64 (f64 (65 / 100) - f64 (55 / 100)) * 100)) = ''Higher win rate (+10%)''"
  by (simp add: winRateMessage_def fmtF0_def f64_eval showNat.simps digitChar_def)

lemma emitted_scenario:
  assumes "ComparisonStats.WinRate (Stats (Team1 report)) = 65 / 100"
    and "ComparisonStats.WinRate (Stats (Team2 report)) = 55 / 100"
  shows "hd (emittedTeam1 report) = ''Higher win rate (+10%)''"
proof -
  have d: "wrDiffOf report = f64 (f64 (65 / 100) - f64 (55 / 100))"
    by (simp only: wrDiffOf_def assms)
  have "5 / 100 \<le> wrDiffOf report"
    by (simp only: d scenario_difference)
  then have "hd (emittedTeam1 report) = winRateMessage (f64 (wrDiffOf report * 100))"
    by (simp add: emittedTeam1_def calculateAdvantages_Team1)
  then show ?thesis
    by (simp only: d scenario_message)
qed

lemma product_positive:
  "5 / 100 \<le> d \<Longrightarrow> 0 \<le> f64 (d * 100)"
  "d \<le> - (5 / 100) \<Longrightarrow> 0 \<le> f64 (- d * 100)"
proof -
  assume "5 / 100 \<le> d"
  then have "0 < d * 100" by simp
  then have "0 < f64 (d * 100)" by (rule f64_pos)
  then show "0 \<le> f64 (d * 100)" by (rule less_imp_le)
next
  assume "d \<le> - (5 / 100)"
  then have "0 < - d * 100" by simp
  then have "0 < f64 (- d * 100)" by (rule f64_pos)
  then show "0 \<le> f64 (- d * 100)" by (rule less_imp_le)
qed


lemma exampleComparison_winRates:
  "ComparisonStats.WinRate (Stats (Team1 exampleComparison)) = 65 / 100"
  "ComparisonStats.WinRate (Stats (Team2 exampleComparison)) = 55 / 100"
  by (simp_all add: exampleComparison_def buildComparisonStats_def exampleTeamStats_def)

lemma exampleComparison_difference:
  "wrDiffOf exampleComparison = f64 (f64 (65 / 100) - f64 (55 / 100))"
  by (simp only: wrDiffOf_def exampleComparison_winRates)

lemma exampleComparison_percent:
  "showNat (nat (roundHalfEven (f64 (wrDiffOf exampleComparison * 100)))) = ''10''"
  unfolding exampleComparison_difference
  by (simp add: f64_eval showNat.simps digitChar_def)


text \<open>
  Further comparisons. Win rates of 1.0 against 0.025 print 98: the difference, rounded,
  times 100 is the float64 value 97.5, and the tie goes to the even integer. Win rates of
  20/40 against 23/40 print 7 for the second team. Win rates of 10/20 against 9/20 give no
  advantage: the difference of the two float64 values lies below the constant 0.05. Win
  rates of 1/8 against 0 print 12, the even neighbour of 12.5.
\<close>

lemmas comparison_eval = emittedTeam1_def emittedTeam2_def calculateAdvantages_def
  addWinRateAdvantage_def addKDAdvantage_def addStreakAdvantage_def winRateComparison_def
  buildComparisonStats_def exampleTeamStats_def winRateMessage_def fmtF0_def showNat.simps
  digitChar_def Let_def

lemma winRate_advantage_examples:
  "emittedTeam1 (winRateComparison 1 (1 / 40)) = [''Higher win rate (+98%)'']"
  "emittedTeam2 (winRateComparison (20 / 40) (23 / 40)) = [''Higher win rate (+7%)'']"
  "emittedTeam1 (winRateComparison (10 / 20) (9 / 20)) = []"
  "emittedTeam2 (winRateComparison (10 / 20) (9 / 20)) = []"
  "emittedTeam1 (winRateComparison (1 / 8) 0) = [''Higher win rate (+12%)'']"
  by (simp_all add: comparison_eval f64_eval)

subsection \<open>The report assembler\<close>

lemma goDiv_nonneg: "0 \<le> a \<Longrightarrow> goDiv a 2 = a div 2"
  by (cases "a = 0") (simp_all add: goDiv_def)

text \<open>
  The levels of a report built by \<^verbatim>\<open>CompareTeams\<close> come from the confidence scorer and
  are among LOW, MEDIUM and HIGH.
\<close>

lemma CalculateConfidence_valid: "validLevel (Level (CalculateConfidence s t w))"
  by (simp add: CalculateConfidence_def confidenceThresholds_def validLevel_def)

lemma calculateAdvantages_teams:
  "Team1 (calculateAdvantages r) = Team1 r" "Team2 (calculateAdvantages r) = Team2 r"
  by (simp_all add: calculateAdvantages_def Let_def)

lemma CompareTeams_levels_valid:
  assumes "CompareTeams c team1 team2 title w tids = Inr report"
  shows "validLevel (Level (ComparisonStats.Confidence (Stats (Team1 report))))"
    and "validLevel (Level (ComparisonStats.Confidence (Stats (Team2 report))))"
  using assms CalculateConfidence_valid
  by (auto simp: CompareTeams_def Let_def calculateAdvantages_teams buildComparisonStats_def
      split: sum.splits if_splits)

text \<open>
  C8. For every comparison report whose two confidence levels are among LOW, MEDIUM and
  HIGH, the level of the overall confidence is the lower of the two, and its reliability
  score is the integer quotient of the sum of the two scores by 2: for a non-negative sum,
  the mean of the two scores rounded down.
\<close>

theorem overall_confidence_lower_level:
  assumes "validLevel (Level (ComparisonStats.Confidence (Stats (Team1 comparison))))"
    and "validLevel (Level (ComparisonStats.Confidence (Stats (Team2 comparison))))"
  shows "Level (calculateOverallConfidence comparison)
           = (if levelRank (Level (ComparisonStats.Confidence (Stats (Team1 comparison))))
                   \<le> levelRank (Level (ComparisonStats.Confidence (Stats (Team2 comparison))))
              then Level (ComparisonStats.Confidence (Stats (Team1 comparison)))
              else Level (ComparisonStats.Confidence (Stats (Team2 comparison))))
       \<and> levelRank (Level (calculateOverallConfidence comparison))
           = min (levelRank (Level (ComparisonStats.Confidence (Stats (Team1 comparison)))))
                 (levelRank (Level (ComparisonStats.Confidence (Stats (Team2 comparison)))))
       \<and> ReliabilityScore (calculateOverallConfidence comparison)
           = goDiv (ReliabilityScore (ComparisonStats.Confidence (Stats (Team1 comparison)))
                     + ReliabilityScore (ComparisonStats.Confidence (Stats (Team2 comparison)))) 2
       \<and> (0 \<le> ReliabilityScore (ComparisonStats.Confidence (Stats (Team1 comparison)))
                 + ReliabilityScore (ComparisonStats.Confidence (Stats (Team2 comparison))) \<longrightarrow>
            ReliabilityScore (calculateOverallConfidence comparison)
              = \<lfloor>(real_of_int (ReliabilityScore (ComparisonStats.Confidence (Stats (Team1 comparison))))
                  + real_of_int (ReliabilityScore (ComparisonStats.Confidence (Stats (Team2 comparison)))))
                 / 2\<rfloor>)"
proof -
  let ?s = "ReliabilityScore (ComparisonStats.Confidence (Stats (Team1 comparison)))
              + ReliabilityScore (ComparisonStats.Confidence (Stats (Team2 comparison)))"
  have lv: "Level (calculateOverallConfidence comparison)
           = (if levelRank (Level (ComparisonStats.Confidence (Stats (Team1 comparison))))
                   \<le> levelRank (Level (ComparisonStats.Confidence (Stats (Team2 comparison))))
              then Level (ComparisonStats.Confidence (Stats (Team1 comparison)))
              else Level (ComparisonStats.Confidence (Stats (Team2 comparison))))"
    using assms
    by (auto simp: calculateOverallConfidence_def Let_def validLevel_def levelRank_def
        ConfidenceLevel_defs)
  then have rk: "levelRank (Level (calculateOverallConfidence comparison))
           = min (levelRank (Level (ComparisonStats.Confidence (Stats (Team1 comparison)))))
                 (levelRank (Level (ComparisonStats.Confidence (Stats (Team2 comparison)))))"
    by (simp add: min_def)
  have sc: "ReliabilityScore (calculateOverallConfidence comparison) = goDiv ?s 2"
    by (simp add: calculateOverallConfidence_def Let_def)
  have fl: "0 \<le> ?s \<Longrightarrow> goDiv ?s 2 = \<lfloor>real_of_int ?s / 2\<rfloor>"
    by (simp add: goDiv_nonneg floor_divide_of_int_eq [of ?s 2, simplified])
  from lv rk sc fl show ?thesis
    by simp
qed

lemma exampleComparison_confidences:
  "ComparisonStats.Confidence (Stats (Team1 exampleComparison)) = CalculateConfidence 20 20 Last3Months"
  "ComparisonStats.Confidence (Stats (Team2 exampleComparison)) = CalculateConfidence 10 10 Last3Months"
  by (simp_all add: exampleComparison_def buildComparisonStats_def exampleTeamStats_def)

lemma example_levels:
  "Level (CalculateConfidence 20 20 Last3Months) = ''HIGH''"
  "ReliabilityScore (CalculateConfidence 20 20 Last3Months) = 95"
  "Level (CalculateConfidence 10 10 Last3Months) = ''MEDIUM''"
  "ReliabilityScore (CalculateConfidence 10 10 Last3Months) = 60"
  by (simp_all add: CalculateConfidence_def confidenceThresholds_def ConfidenceLevel_defs)

text \<open>An instance: HIGH with 95 against MEDIUM with 60 gives MEDIUM with 77.\<close>

theorem overall_confidence_lower_level_witness:
  "validLevel (Level (ComparisonStats.Confidence (Stats (Team1 exampleComparison))))
   \<and> validLevel (Level (ComparisonStats.Confidence (Stats (Team2 exampleComparison))))
   \<and> Level (ComparisonStats.Confidence (Stats (Team1 exampleComparison))) = ''HIGH''
   \<and> Level (ComparisonStats.Confidence (Stats (Team2 exampleComparison))) = ''MEDIUM''
   \<and> Level (calculateOverallConfidence exampleComparison) = ''MEDIUM''
   \<and> ReliabilityScore (calculateOverallConfidence exampleComparison) = 77"
proof -
  have v1: "validLevel (Level (ComparisonStats.Confidence (Stats (Team1 exampleComparison))))"
    and v2: "validLevel (Level (ComparisonStats.Confidence (Stats (Team2 exampleComparison))))"
    by (simp_all add: exampleComparison_confidences example_levels validLevel_def ConfidenceLevel_defs)
  have r: "\<not> levelRank ''HIGH'' \<le> levelRank ''MEDIUM''"
    by (simp add: levelRank_def ConfidenceLevel_defs)
  from overall_confidence_lower_level [OF v1 v2] v1 v2 r show ?thesis
    by (simp add: exampleComparison_confidences example_levels goDiv_def)
qed

text \<open>The mean of 95 and 60 is 77.5; the overall reliability score is 77.\<close>

theorem overall_reliability_truncates:
  "ReliabilityScore (ComparisonStats.Confidence (Stats (Team1 exampleComparison))) = 95
   \<and> ReliabilityScore (ComparisonStats.Confidence (Stats (Team2 exampleComparison))) = 60
   \<and> ReliabilityScore (calculateOverallConfidence exampleComparison) = 77
   \<and> real_of_int (ReliabilityScore (calculateOverallConfidence exampleComparison))
        \<noteq> (real_of_int 95 + real_of_int 60) / 2"
  by (simp add: calculateOverallConfidence_def Let_def goDiv_def exampleComparison_confidences
      example_levels)


end
